theory Spec2Isabelle
  imports Complex_Main "HOL-Library.Log_Nat"
begin

section \<open>The sklearn parity harness (e2e\_tests/sklearn\_parity.py)\<close>

text \<open>
  The script is one function, \<open>main\<close>: it reads two CSV files with pandas, fits
  sklearn's gradient boosting classifier on the train split, scores both splits and
  prints one JSON object. pandas' CSV reader, the classifier and the \<open>repr\<close> of
  Python scalars are libraries the script calls: they are parameters of the model
  (record \<open>libs\<close>). What the script itself does with their results (which file is
  read first, which column is dropped, which arguments the classifier gets, how
  accuracy is computed, what is printed) is modelled step by step, every exception
  being a value of \<open>py_error\<close>. The file system is a map from paths to what stands
  there, and what differs between two processes on the same files, the state of
  numpy's global random generator, is part of the world a run starts in.
\<close>

subsection \<open>Python floats\<close>

text \<open>
  A Python \<open>float\<close> is an IEEE double: a finite value (kept as the rational it
  denotes), negative zero, an infinity or NaN.
\<close>

datatype pyfloat = Finite rat | NegZero | PosInf | NegInf | NaN

text \<open>\<open>0.0 <= x <= 1.0\<close> in Python; every comparison with NaN is false.\<close>

fun in_unit_interval :: "pyfloat \<Rightarrow> bool" where
  "in_unit_interval (Finite q) = (0 \<le> q \<and> q \<le> 1)"
| "in_unit_interval NegZero = True"
| "in_unit_interval PosInf = False"
| "in_unit_interval NegInf = False"
| "in_unit_interval NaN = False"

definition pow2 :: "int \<Rightarrow> rat" where
  "pow2 e = (if 0 \<le> e then 2 ^ nat e else 1 / 2 ^ nat (- e))"

text \<open>Rounding to the nearest integer, ties to the even one (the IEEE default).\<close>

definition round_half_even :: "rat \<Rightarrow> int" where
  "round_half_even x =
     (let f = \<lfloor>x\<rfloor>; d = x - of_int f
      in if d < 1 / 2 then f
         else if 1 / 2 < d then f + 1
         else if even f then f else f + 1)"

text \<open>
  The binade of a positive rational \<open>q\<close>: the \<open>e\<close> with \<open>2^e \<le> q < 2^(e + 1)\<close>,
  found from the bit lengths of numerator and denominator.
\<close>

definition binade :: "rat \<Rightarrow> int" where
  "binade q =
     (let (a, b) = quotient_of q; e0 = bitlen a - bitlen b
      in if pow2 e0 \<le> q then e0 else e0 - 1)"

text \<open>
  The double nearest to \<open>q\<close> (for \<open>q\<close> below the overflow threshold): 53
  significant bits, so the unit in the last place is \<open>2^(e - 52)\<close> in binade \<open>e\<close>,
  and never less than the subnormal one, \<open>2^(-1074)\<close>.
\<close>

definition float64_round :: "rat \<Rightarrow> rat" where
  "float64_round q =
     (if q = 0 then 0
      else let ulp = pow2 (max (binade \<bar>q\<bar>) (- 1022) - 52)
           in of_int (round_half_even (q / ulp)) * ulp)"

subsection \<open>numpy\<close>

text \<open>
  A two-dimensional array of shape \<open>(length arr_rows, arr_ncols)\<close>. The column count
  is a field of its own: an array of no rows still has one.
\<close>

record 'a ndarray2 =
  arr_ncols :: nat
  arr_rows :: "'a list list"

text \<open>
  The exceptions a run can end with. The first four are the subclasses of \<open>OSError\<close>
  that opening a file for reading raises, with the path. \<open>ParserError\<close> stands for the
  errors of pandas' reader (\<open>pandas.errors.EmptyDataError\<close>, \<open>ParserError\<close>);
  \<open>OracleError\<close> is any exception raised inside the classifier, kept as its text.
\<close>

datatype py_error =
    FileNotFoundError string
  | NotADirectoryError string
  | IsADirectoryError string
  | PermissionError string
  | ParserError
  | KeyError "string list"
  | IndexError
  | ValueError
  | OracleError string

text \<open>\<open>A[:, j]\<close> for \<open>0 \<le> j\<close>: IndexError when the array has no column \<open>j\<close>.\<close>

definition take_column :: "'a ndarray2 \<Rightarrow> nat \<Rightarrow> py_error + 'a list" where
  "take_column A j =
     (if j < arr_ncols A then Inr (map (\<lambda>r. r ! j) (arr_rows A)) else Inl IndexError)"

text \<open>
  \<open>a == b\<close> on one-dimensional arrays: elementwise, an array of length one being
  broadcast; any other pair of different lengths raises ValueError (numpy 1.25 on).
\<close>

definition np_eq :: "'a list \<Rightarrow> 'a list \<Rightarrow> py_error + bool list" where
  "np_eq xs ys =
     (if length xs = length ys then Inr (map (\<lambda>(x, y). x = y) (zip xs ys))
      else if length xs = 1 then Inr (map (\<lambda>y. hd xs = y) ys)
      else if length ys = 1 then Inr (map (\<lambda>x. x = hd ys) xs)
      else Inl ValueError)"

text \<open>
  \<open>float(np.mean(b))\<close> for a boolean array \<open>b\<close>: the number of True entries
  divided by the length, in double precision (both counts are doubles themselves as
  long as they are below \<open>2^53\<close>); NaN for the empty array.
\<close>

definition np_mean :: "bool list \<Rightarrow> pyfloat" where
  "np_mean bs =
     (if bs = [] then NaN
      else Finite (float64_round (of_nat (length (filter (\<lambda>b. b) bs)) / of_nat (length bs))))"

subsection \<open>pandas\<close>

record 'v dataframe =
  df_columns :: "string list"
  df_rows :: "'v list list"

text \<open>
  The file system: what stands at a path, if anything. A file can be closed to the
  process (no read permission), and so can a directory (no search permission).
\<close>

datatype node = File string | Unreadable_File | Directory | Closed_Directory

text \<open>
  The directories on the way to a path: its prefixes that end before a separator,
  outermost first (\<open>data\<close> for \<open>data/iris_train.csv\<close>). A leading separator is the
  root, and of a run of separators only the first counts.
\<close>

definition ancestors :: "string \<Rightarrow> string list" where
  "ancestors p =
     map (\<lambda>i. take i p)
       (filter (\<lambda>i. 0 < i \<and> p ! i = CHR ''/'' \<and> p ! (i - 1) \<noteq> CHR ''/'') [0..<length p])"

text \<open>
  \<open>open(path)\<close> for reading, as the operating system resolves it: every directory
  on the way must be there, be a directory and be open to the process; then the path
  itself must be a file the process may read. The first obstacle decides the error.
\<close>

fun walk :: "(string \<Rightarrow> node option) \<Rightarrow> string \<Rightarrow> string list \<Rightarrow> py_error option" where
  "walk fs p [] = None"
| "walk fs p (d # ds) =
     (case fs d of
        None \<Rightarrow> Some (FileNotFoundError p)
      | Some (File c) \<Rightarrow> Some (NotADirectoryError p)
      | Some Unreadable_File \<Rightarrow> Some (NotADirectoryError p)
      | Some Closed_Directory \<Rightarrow> Some (PermissionError p)
      | Some Directory \<Rightarrow> walk fs p ds)"

definition open_file :: "(string \<Rightarrow> node option) \<Rightarrow> string \<Rightarrow> py_error + string" where
  "open_file fs p =
     (case walk fs p (ancestors p) of
        Some e \<Rightarrow> Inl e
      | None \<Rightarrow>
          (case fs p of
             None \<Rightarrow> Inl (FileNotFoundError p)
           | Some Directory \<Rightarrow> Inl (IsADirectoryError p)
           | Some Closed_Directory \<Rightarrow> Inl (IsADirectoryError p)
           | Some Unreadable_File \<Rightarrow> Inl (PermissionError p)
           | Some (File content) \<Rightarrow> Inr content))"

text \<open>
  \<open>pd.read_csv(path)\<close>: the error of \<open>open\<close> when the file cannot be opened;
  otherwise pandas parses the content, which fails on a file it cannot read as a table.
\<close>

definition read_csv ::
  "(string \<Rightarrow> 'v dataframe option) \<Rightarrow> (string \<Rightarrow> node option) \<Rightarrow> string \<Rightarrow>
   py_error + 'v dataframe" where
  "read_csv parse fs path =
     (case open_file fs path of
        Inl e \<Rightarrow> Inl e
      | Inr content \<Rightarrow>
          (case parse content of None \<Rightarrow> Inl ParserError | Some df \<Rightarrow> Inr df))"

text \<open>
  \<open>df.drop(columns=cs)\<close>: KeyError naming the labels that are no column of the
  frame; otherwise the frame without the columns named in \<open>cs\<close>.
\<close>

definition drop_columns :: "'v dataframe \<Rightarrow> string list \<Rightarrow> py_error + 'v dataframe" where
  "drop_columns df cs =
     (let missing = filter (\<lambda>c. c \<notin> set (df_columns df)) cs
      in if missing \<noteq> [] then Inl (KeyError missing)
         else Inr \<lparr>df_columns = filter (\<lambda>c. c \<notin> set cs) (df_columns df),
                   df_rows = map (\<lambda>r. map snd (filter (\<lambda>(c, v). c \<notin> set cs)
                                                     (zip (df_columns df) r)))
                                 (df_rows df)\<rparr>)"

text \<open>
  \<open>df[c].values\<close>: KeyError when \<open>c\<close> is no column. (\<open>read_csv\<close> renames
  repeated header names, so a name is the name of one column.)
\<close>

definition getitem :: "'v dataframe \<Rightarrow> string \<Rightarrow> py_error + 'v list" where
  "getitem df c =
     (if c \<notin> set (df_columns df) then Inl (KeyError [c])
      else Inr (map (\<lambda>r. the (map_of (zip (df_columns df) r) c)) (df_rows df)))"

text \<open>\<open>df.values\<close>\<close>

definition df_values :: "'v dataframe \<Rightarrow> 'v ndarray2" where
  "df_values df = \<lparr>arr_ncols = length (df_columns df), arr_rows = df_rows df\<rparr>"

subsection \<open>The classifier\<close>

text \<open>
  The keyword arguments of the constructor; the two floats are the decimal literals.
  \<open>random_state\<close> is \<open>None\<close> when the argument is left out: the estimator then draws
  its random numbers from numpy's global generator.
\<close>

record hyperparams =
  n_estimators :: nat
  learning_rate :: rat
  max_depth :: nat
  min_samples_leaf :: nat
  subsample :: rat
  random_state :: "nat option"

text \<open>
  The classifier library. \<open>fit\<close> turns the constructor's arguments and the training
  data into a fitted model (or raises, \<open>Inl\<close> holding the exception's text). It draws
  random numbers, so its result may also depend on the state in which it finds numpy's
  global generator, its second argument; that state is not the same from one process
  to the next. \<open>predict\<close> and \<open>predict_proba\<close> read a fitted model and draw nothing.
\<close>

record ('v, 'm) classifier =
  fit :: "hyperparams \<Rightarrow> nat \<Rightarrow> 'v ndarray2 \<Rightarrow> 'v list \<Rightarrow> string + 'm"
  predict :: "'m \<Rightarrow> 'v ndarray2 \<Rightarrow> string + 'v list"
  predict_proba :: "'m \<Rightarrow> 'v ndarray2 \<Rightarrow> string + pyfloat ndarray2"

text \<open>The calls a run makes to the classifier library.\<close>

datatype 'v call =
    Construct hyperparams
  | Fit "'v ndarray2" "'v list"
  | PredictProba "'v ndarray2"
  | Predict "'v ndarray2"

definition is_query :: "'v call \<Rightarrow> bool" where
  "is_query c = (case c of PredictProba X \<Rightarrow> True | Predict X \<Rightarrow> True | _ \<Rightarrow> False)"

text \<open>
  Three facts about sklearn's estimators that the script relies on without checking:
  \<open>predict\<close> and \<open>predict_proba\<close> answer with one entry per row of the matrix;
  every entry point refuses a matrix of no rows (``Found array with 0 sample(s)'');
  and an estimator that was given a \<open>random_state\<close> seeds a generator of its own
  with it, so that the global generator plays no part in \<open>fit\<close>.
\<close>

definition one_per_row :: "('v, 'm) classifier \<Rightarrow> bool" where
  "one_per_row C =
     (\<forall>m X. (\<forall>ps. predict C m X = Inr ps \<longrightarrow> length ps = length (arr_rows X)) \<and>
            (\<forall>P. predict_proba C m X = Inr P \<longrightarrow> length (arr_rows P) = length (arr_rows X)))"

definition refuses_empty :: "('v, 'm) classifier \<Rightarrow> bool" where
  "refuses_empty C =
     (\<forall>X. arr_rows X = [] \<longrightarrow>
          (\<forall>hp g y. \<exists>x. fit C hp g X y = Inl x) \<and>
          (\<forall>m. \<exists>x. predict C m X = Inl x) \<and>
          (\<forall>m. \<exists>x. predict_proba C m X = Inl x))"

definition seeded_deterministic :: "('v, 'm) classifier \<Rightarrow> bool" where
  "seeded_deterministic C =
     (\<forall>hp g g' X y. random_state hp \<noteq> None \<longrightarrow> fit C hp g X y = fit C hp g' X y)"

subsection \<open>json\<close>

datatype 'v json =
    JFloat pyfloat
  | JLabel 'v
  | JList "'v json list"
  | JDict "(string \<times> 'v json) list"

fun join_str :: "string \<Rightarrow> string list \<Rightarrow> string" where
  "join_str sep [] = []"
| "join_str sep [x] = x"
| "join_str sep (x # y # ys) = x @ sep @ join_str sep (y # ys)"

text \<open>
  \<open>json.dumps\<close> with its default separators. A finite float is written by
  \<open>float.__repr__\<close> (parameter \<open>frepr\<close>), a label by the encoder of its Python type
  (parameter \<open>lrepr\<close>). The keys of the script need no escaping.
\<close>

fun dumps_float :: "(rat \<Rightarrow> string) \<Rightarrow> pyfloat \<Rightarrow> string" where
  "dumps_float frepr (Finite q) = frepr q"
| "dumps_float frepr NegZero = ''-0.0''"
| "dumps_float frepr PosInf = ''Infinity''"
| "dumps_float frepr NegInf = ''-Infinity''"
| "dumps_float frepr NaN = ''NaN''"

fun json_dumps :: "(rat \<Rightarrow> string) \<Rightarrow> ('v \<Rightarrow> string) \<Rightarrow> 'v json \<Rightarrow> string" where
  "json_dumps frepr lrepr (JFloat x) = dumps_float frepr x"
| "json_dumps frepr lrepr (JLabel v) = lrepr v"
| "json_dumps frepr lrepr (JList js) =
     ''['' @ join_str '', '' (map (json_dumps frepr lrepr) js) @ '']''"
| "json_dumps frepr lrepr (JDict kvs) =
     ''{'' @ join_str '', ''
        (map (\<lambda>kv. [CHR 0x22] @ fst kv @ [CHR 0x22] @ '': '' @ json_dumps frepr lrepr (snd kv)) kvs)
      @ ''}''"

subsection \<open>Runs\<close>

text \<open>
  The world of a run: the calls it has made to the classifier, in order, what it has
  written to standard output, and \<open>entropy\<close>, the state of numpy's global random
  generator, different from one process to the next. A step either returns a value or
  raises.
\<close>

record 'v world =
  oracle_log :: "'v call list"
  stdout :: string
  entropy :: nat

type_synonym ('v, 'a) prog = "'v world \<Rightarrow> (py_error + 'a) \<times> 'v world"

definition ret :: "'a \<Rightarrow> ('v, 'a) prog" where
  "ret a = (\<lambda>w. (Inr a, w))"

definition bnd :: "('v, 'a) prog \<Rightarrow> ('a \<Rightarrow> ('v, 'b) prog) \<Rightarrow> ('v, 'b) prog" where
  "bnd m f = (\<lambda>w. case m w of (Inl e, w') \<Rightarrow> (Inl e, w') | (Inr a, w') \<Rightarrow> f a w')"

definition lift :: "py_error + 'a \<Rightarrow> ('v, 'a) prog" where
  "lift r = (\<lambda>w. (r, w))"

definition oracle_call :: "'v call \<Rightarrow> string + 'a \<Rightarrow> ('v, 'a) prog" where
  "oracle_call c r =
     (\<lambda>w. (case r of Inl x \<Rightarrow> Inl (OracleError x) | Inr a \<Rightarrow> Inr a,
           w\<lparr>oracle_log := oracle_log w @ [c]\<rparr>))"

definition print :: "string \<Rightarrow> ('v, unit) prog" where
  "print s = (\<lambda>w. (Inr (), w\<lparr>stdout := stdout w @ s @ [CHR 0x0A]\<rparr>))"

record ('v, 'm) libs =
  parse_csv :: "string \<Rightarrow> 'v dataframe option"
  clf_lib :: "('v, 'm) classifier"
  float_repr :: "rat \<Rightarrow> string"
  label_repr :: "'v \<Rightarrow> string"

text \<open>\<open>os.path.join(a, b)\<close> (POSIX).\<close>

definition path_join :: "string \<Rightarrow> string \<Rightarrow> string" where
  "path_join a b =
     (if b \<noteq> [] \<and> hd b = CHR ''/'' then b
      else if a = [] \<or> last a = CHR ''/'' then a @ b
      else a @ ''/'' @ b)"

text \<open>
  \<open>args.data_dir\<close>: the value of \<open>--data-dir\<close>, \<open>data\<close> when the option is not
  given. A run starts from the parsed arguments: what argparse does with a command line
  it rejects, or with \<open>--help\<close>, happens before line 17 and is not part of it.
\<close>

definition data_dir :: "string option \<Rightarrow> string" where
  "data_dir arg = (case arg of None \<Rightarrow> ''data'' | Some d \<Rightarrow> d)"

definition train_path :: "string option \<Rightarrow> string" where
  "train_path arg = path_join (data_dir arg) ''iris_train.csv''"

definition test_path :: "string option \<Rightarrow> string" where
  "test_path arg = path_join (data_dir arg) ''iris_test.csv''"

definition and_then :: "'e + 'a \<Rightarrow> ('a \<Rightarrow> 'e + 'b) \<Rightarrow> 'e + 'b" where
  "and_then r f = (case r of Inl e \<Rightarrow> Inl e | Inr a \<Rightarrow> f a)"

text \<open>
  Lines 17 to 26 of \<open>main\<close>: both files are read, then each frame is split into
  the feature matrix (every column but \<open>label\<close>) and the label vector.
\<close>

definition load_splits ::
  "('v, 'm) libs \<Rightarrow> (string \<Rightarrow> node option) \<Rightarrow> string option \<Rightarrow>
   py_error + ('v ndarray2 \<times> 'v list \<times> 'v ndarray2 \<times> 'v list)" where
  "load_splits L fs arg =
     and_then (read_csv (parse_csv L) fs (train_path arg)) (\<lambda>train_df.
     and_then (read_csv (parse_csv L) fs (test_path arg)) (\<lambda>test_df.
     and_then (drop_columns train_df [''label'']) (\<lambda>train_features.
     and_then (getitem train_df ''label'') (\<lambda>y_train.
     and_then (drop_columns test_df [''label'']) (\<lambda>test_features.
     and_then (getitem test_df ''label'') (\<lambda>y_test.
     Inr (df_values train_features, y_train, df_values test_features, y_test)))))))"

text \<open>
  Lines 28 to 36: the classifier is constructed and fitted; \<open>fit\<close> finds the global
  generator in the state it has in this process.
\<close>

definition fit_classifier ::
  "('v, 'm) libs \<Rightarrow> 'v ndarray2 \<Rightarrow> 'v list \<Rightarrow> ('v, 'm) prog" where
  "fit_classifier L X_train y_train =
     (let params = \<lparr>n_estimators = 100, learning_rate = 1 / 10, max_depth = 3,
                    min_samples_leaf = 1, subsample = 1, random_state = Some 42\<rparr>
      in bnd (oracle_call (Construct params) (Inr params)) (\<lambda>clf w.
         oracle_call (Fit X_train y_train)
           (fit (clf_lib L) clf (entropy w) X_train y_train) w))"

text \<open>Lines 38 to 48: the four values and the dictionary \<open>result\<close>.\<close>

definition score ::
  "('v, 'm) libs \<Rightarrow> 'm \<Rightarrow> 'v ndarray2 \<Rightarrow> 'v list \<Rightarrow> 'v ndarray2 \<Rightarrow> 'v list \<Rightarrow>
   ('v, (string \<times> 'v json) list) prog" where
  "score L m X_train y_train X_test y_test =
     bnd (oracle_call (PredictProba X_test) (predict_proba (clf_lib L) m X_test)) (\<lambda>proba.
     bnd (lift (take_column proba 1)) (\<lambda>test_probabilities.
     bnd (oracle_call (Predict X_test) (predict (clf_lib L) m X_test)) (\<lambda>test_predictions.
     bnd (oracle_call (Predict X_test) (predict (clf_lib L) m X_test)) (\<lambda>p_test.
     bnd (lift (np_eq p_test y_test)) (\<lambda>hits_test.
     bnd (oracle_call (Predict X_train) (predict (clf_lib L) m X_train)) (\<lambda>p_train.
     bnd (lift (np_eq p_train y_train)) (\<lambda>hits_train.
     ret [(''test_probabilities'', JList (map JFloat test_probabilities)),
          (''test_predictions'', JList (map JLabel test_predictions)),
          (''test_accuracy'', JFloat (np_mean hits_test)),
          (''train_accuracy'', JFloat (np_mean hits_train))])))))))"

text \<open>Lines 17 to 48 together.\<close>

definition main_result ::
  "('v, 'm) libs \<Rightarrow> (string \<Rightarrow> node option) \<Rightarrow> string option \<Rightarrow>
   ('v, (string \<times> 'v json) list) prog" where
  "main_result L fs arg =
     bnd (lift (load_splits L fs arg)) (\<lambda>(X_train, y_train, X_test, y_test).
     bnd (fit_classifier L X_train y_train) (\<lambda>m.
     score L m X_train y_train X_test y_test))"

text \<open>Line 49: \<open>print(json.dumps(result))\<close>.\<close>

definition main ::
  "('v, 'm) libs \<Rightarrow> (string \<Rightarrow> node option) \<Rightarrow> string option \<Rightarrow> ('v, unit) prog" where
  "main L fs arg =
     bnd (main_result L fs arg)
       (\<lambda>result. print (json_dumps (float_repr L) (label_repr L) (JDict result)))"

subsection \<open>The vocabulary of the specification\<close>

text \<open>
  The specification sorts failures into four classes. Read on the exceptions of the
  script: an error of \<open>open\<close> is a file access failure (``input directory or file
  missing/unreadable''); a file pandas cannot parse and a missing column are schema
  failures; an exception of the classifier is a fit failure. The script raises nothing
  of its own for an empty split, and the two numpy errors are in no class.
\<close>

datatype failure = FileAccess | SchemaError | EmptySplit | FitFailure

fun failure_class :: "py_error \<Rightarrow> failure option" where
  "failure_class (FileNotFoundError p) = Some FileAccess"
| "failure_class (NotADirectoryError p) = Some FileAccess"
| "failure_class (IsADirectoryError p) = Some FileAccess"
| "failure_class (PermissionError p) = Some FileAccess"
| "failure_class ParserError = Some SchemaError"
| "failure_class (KeyError cs) = Some SchemaError"
| "failure_class (OracleError x) = Some FitFailure"
| "failure_class IndexError = None"
| "failure_class ValueError = None"


text \<open>The constructor's arguments of line 28 to 35, for the statements below.\<close>

definition parity_params :: hyperparams where
  "parity_params = \<lparr>n_estimators = 100, learning_rate = 1 / 10, max_depth = 3,
                     min_samples_leaf = 1, subsample = 1, random_state = Some 42\<rparr>"

text \<open>
  ``Missing'', of an input file or of the directory it is in: nothing stands at the
  path, or nothing stands where one of the directories on the way should be.
\<close>

definition missing :: "(string \<Rightarrow> node option) \<Rightarrow> string \<Rightarrow> bool" where
  "missing fs p = (fs p = None \<or> list_ex (\<lambda>d. fs d = None) (ancestors p))"

definition newline_free :: "string \<Rightarrow> bool" where
  "newline_free s = (CHR 0x0A \<notin> set s)"

subsection \<open>Libraries for concrete runs\<close>

text \<open>
  To run the model on concrete files the library parameters need values: a reader
  for \<open>parse_csv\<close>, a classifier, and the two encoders of \<open>json.dumps\<close>.

  A cell of a frame that \<open>read_csv\<close> returns is an \<open>int64\<close>, a \<open>float64\<close>, a
  \<open>bool\<close> or, in a column of dtype \<open>object\<close>, a string (or NaN where the field
  is missing).
\<close>

datatype cell = IntCell int | FloatCell pyfloat | BoolCell bool | StrCell string

definition digit_char :: "nat \<Rightarrow> char" where
  "digit_char d = ''0123456789'' ! (d mod 10)"

fun nat_digits :: "nat \<Rightarrow> string" where
  "nat_digits n = (if n < 10 then [digit_char n] else nat_digits (n div 10) @ [digit_char n])"

definition is_digit :: "char \<Rightarrow> bool" where
  "is_digit c = (c \<in> set ''0123456789'')"

definition digit_val :: "char \<Rightarrow> nat" where
  "digit_val c = of_char c - 48"

definition digits_val :: "string \<Rightarrow> nat" where
  "digits_val ds = foldl (\<lambda>n c. 10 * n + digit_val c) 0 ds"

text \<open>
  The tokenizer of pandas' C parser with the defaults of \<open>read_csv\<close>: fields are
  separated by commas, records end at a line feed or a carriage return, a field that
  starts with a quotation mark runs to the closing one (a doubled mark inside stands
  for one mark, separators and line ends inside are text), and a line that is empty or
  holds only spaces and tabs is skipped. \<open>Tok state field record plain rows\<close>: the
  state of the automaton, the field and the record being read, whether the record has
  had no quotation mark so far, and the records that are complete. A file that ends
  inside a quoted field is an error.
\<close>

datatype tok_state = Start_Record | Start_Field | In_Field | In_Quoted | Quote_In_Quoted

datatype tok = Tok tok_state string "string list" bool "string list list"

definition is_terminator :: "char \<Rightarrow> bool" where
  "is_terminator c = (c = CHR 0x0A \<or> c = CHR 0x0D)"

definition blank_record :: "bool \<Rightarrow> string list \<Rightarrow> bool" where
  "blank_record plain r =
     (plain \<and> length r = 1 \<and> list_all (\<lambda>c. c = CHR 0x20 \<or> c = CHR 0x09) (hd r))"

fun end_record :: "tok \<Rightarrow> tok" where
  "end_record (Tok st f r plain rows) =
     Tok Start_Record [] [] True (if blank_record plain (r @ [f]) then rows else rows @ [r @ [f]])"

fun tok_step :: "tok \<Rightarrow> char \<Rightarrow> tok" where
  "tok_step (Tok Start_Record f r plain rows) c =
     (if is_terminator c then Tok Start_Record f r plain rows
      else if c = CHR 0x22 then Tok In_Quoted f r False rows
      else if c = CHR '','' then Tok Start_Field [] (r @ [f]) plain rows
      else Tok In_Field (f @ [c]) r plain rows)"
| "tok_step (Tok Start_Field f r plain rows) c =
     (if is_terminator c then end_record (Tok Start_Field f r plain rows)
      else if c = CHR 0x22 then Tok In_Quoted f r False rows
      else if c = CHR '','' then Tok Start_Field [] (r @ [f]) plain rows
      else Tok In_Field (f @ [c]) r plain rows)"
| "tok_step (Tok In_Field f r plain rows) c =
     (if is_terminator c then end_record (Tok In_Field f r plain rows)
      else if c = CHR '','' then Tok Start_Field [] (r @ [f]) plain rows
      else Tok In_Field (f @ [c]) r plain rows)"
| "tok_step (Tok In_Quoted f r plain rows) c =
     (if c = CHR 0x22 then Tok Quote_In_Quoted f r plain rows
      else Tok In_Quoted (f @ [c]) r plain rows)"
| "tok_step (Tok Quote_In_Quoted f r plain rows) c =
     (if c = CHR 0x22 then Tok In_Quoted (f @ [c]) r plain rows
      else if is_terminator c then end_record (Tok Quote_In_Quoted f r plain rows)
      else if c = CHR '','' then Tok Start_Field [] (r @ [f]) plain rows
      else Tok In_Field (f @ [c]) r plain rows)"

fun tok_rows :: "tok \<Rightarrow> string list list" where
  "tok_rows (Tok st f r plain rows) = rows"

fun at_eof :: "tok \<Rightarrow> string list list option" where
  "at_eof (Tok Start_Record f r plain rows) = Some rows"
| "at_eof (Tok In_Quoted f r plain rows) = None"
| "at_eof (Tok Start_Field f r plain rows) =
     Some (tok_rows (end_record (Tok Start_Field f r plain rows)))"
| "at_eof (Tok In_Field f r plain rows) =
     Some (tok_rows (end_record (Tok In_Field f r plain rows)))"
| "at_eof (Tok Quote_In_Quoted f r plain rows) =
     Some (tok_rows (end_record (Tok Quote_In_Quoted f r plain rows)))"

definition tokenize :: "string \<Rightarrow> string list list option" where
  "tokenize content = at_eof (foldl tok_step (Tok Start_Record [] [] True []) content)"

text \<open>
  The names of the columns, from the first record: a name left empty becomes
  \<open>Unnamed: i\<close>, and a name that has occurred before gets the suffix \<open>.1\<close>,
  \<open>.2\<close>, ..., the first that no column has (named columns are served before
  unnamed ones).
\<close>

definition count_of :: "(string \<times> nat) list \<Rightarrow> string \<Rightarrow> nat" where
  "count_of counts c = (case map_of counts c of None \<Rightarrow> 0 | Some n \<Rightarrow> n)"

fun fresh_suffix :: "nat \<Rightarrow> string \<Rightarrow> string list \<Rightarrow> nat \<Rightarrow> nat" where
  "fresh_suffix 0 old hdr k = k"
| "fresh_suffix (Suc fuel) old hdr k =
     (if old @ ''.'' @ nat_digits k \<in> set hdr then fresh_suffix fuel old hdr (Suc k) else k)"

definition dedup_step ::
  "string list \<times> (string \<times> nat) list \<Rightarrow> nat \<Rightarrow> string list \<times> (string \<times> nat) list" where
  "dedup_step s i =
     (let hdr = fst s; counts = snd s; col = hdr ! i; cur = count_of counts col
      in if 0 < cur
         then let k = fresh_suffix (length hdr) col hdr cur; new = col @ ''.'' @ nat_digits k
              in (hdr[i := new], (new, 1) # (col, Suc k) # counts)
         else (hdr, (col, 1) # counts))"

definition column_names :: "string list \<Rightarrow> string list" where
  "column_names h =
     (let named = map (\<lambda>i. if h ! i = [] then ''Unnamed: '' @ nat_digits i else h ! i)
                      [0..<length h];
          order = filter (\<lambda>i. h ! i \<noteq> []) [0..<length h] @
                  filter (\<lambda>i. h ! i = []) [0..<length h]
      in fst (foldl dedup_step (named, []) order))"

text \<open>
  The fields of a column are converted together: to integers if every field is one
  (within \<open>int64\<close>), else to floats if every field is a number or a missing value,
  else to booleans, else they stay strings; a missing value is NaN. A float is read
  as the C parser does it: up to 17 digits are gathered in a double, which is then
  multiplied or divided by the double \<open>1e\<close>\<^emph>\<open>k\<close>.
\<close>

definition is_space :: "char \<Rightarrow> bool" where
  "is_space c = (c \<in> set [CHR 0x20, CHR 0x09, CHR 0x0A, CHR 0x0B, CHR 0x0C, CHR 0x0D])"

definition split_sign :: "string \<Rightarrow> bool \<times> string" where
  "split_sign s =
     (case s of
        [] \<Rightarrow> (False, [])
      | c # cs \<Rightarrow> if c = CHR ''-'' then (True, cs) else if c = CHR ''+'' then (False, cs)
                  else (False, s))"

definition int_token :: "string \<Rightarrow> int option" where
  "int_token s =
     (let (neg, s1) = split_sign (dropWhile is_space s);
          ds = takeWhile is_digit s1;
          rest = dropWhile is_space (dropWhile is_digit s1);
          v = (if neg then - int (digits_val ds) else int (digits_val ds))
      in if ds \<noteq> [] \<and> rest = [] \<and> - (2 ^ 63) \<le> v \<and> v < 2 ^ 63 then Some v else None)"

definition exponent_part :: "string \<Rightarrow> int \<times> string" where
  "exponent_part r =
     (case r of
        [] \<Rightarrow> (0, [])
      | c # cs \<Rightarrow>
          if c = CHR ''e'' \<or> c = CHR ''E''
          then let (neg, s2) = split_sign cs; ds = takeWhile is_digit s2
               in if ds = [] then (0, r)
                  else (if neg then - int (digits_val ds) else int (digits_val ds),
                        dropWhile is_digit s2)
          else (0, r))"

definition p10 :: "int \<Rightarrow> rat" where
  "p10 k = float64_round (10 ^ nat k)"

definition scale10 :: "bool \<Rightarrow> rat \<Rightarrow> int \<Rightarrow> pyfloat option" where
  "scale10 neg m e =
     (if 308 < e then None
      else let x = (if 0 < e then float64_round (m * p10 e)
                    else if e < - 616 then 0
                    else if e < - 308
                    then float64_round (float64_round (m / p10 (- 308 - e)) / p10 308)
                    else float64_round (m / p10 (- e)))
           in if 2 ^ 1024 \<le> x then None
              else if x = 0 \<and> neg then Some NegZero
              else Some (Finite (if neg then - x else x)))"

definition decimal_token :: "string \<Rightarrow> pyfloat option" where
  "decimal_token s =
     (let (neg, s1) = split_sign (dropWhile is_space s);
          d1 = takeWhile is_digit s1;
          r1 = dropWhile is_digit s1;
          (d2, r2) = (case r1 of
                        [] \<Rightarrow> ([], [])
                      | c # cs \<Rightarrow> if c = CHR ''.''
                                  then (takeWhile is_digit cs, dropWhile is_digit cs)
                                  else ([], r1));
          (ex, r3) = exponent_part r2;
          used1 = take 17 d1;
          used2 = take (17 - length used1) d2;
          m = foldl (\<lambda>a c. float64_round (float64_round (a * 10) + of_nat (digit_val c))) 0
                (used1 @ used2)
      in if d1 @ d2 = [] \<or> dropWhile is_space r3 \<noteq> [] then None
         else scale10 neg m (int (length d1 - 17) - int (length used2) + ex))"

definition lower :: "char \<Rightarrow> char" where
  "lower c = (let n = of_char c :: nat in if 65 \<le> n \<and> n \<le> 90 then char_of (n + 32) else c)"

definition float_token :: "string \<Rightarrow> pyfloat option" where
  "float_token s =
     (case decimal_token s of
        Some x \<Rightarrow> Some x
      | None \<Rightarrow>
          if map lower s \<in> set [''inf'', ''+inf'', ''infinity'', ''+infinity''] then Some PosInf
          else if map lower s \<in> set [''-inf'', ''-infinity''] then Some NegInf
          else None)"

definition bool_token :: "string \<Rightarrow> bool option" where
  "bool_token s =
     (if s \<in> set [''True'', ''TRUE'', ''true''] then Some True
      else if s \<in> set [''False'', ''FALSE'', ''false''] then Some False
      else None)"

definition na_values :: "string list" where
  "na_values = ['''', ''#N/A'', ''#N/A N/A'', ''#NA'', ''-1.#IND'', ''-1.#QNAN'', ''-NaN'',
                ''-nan'', ''1.#IND'', ''1.#QNAN'', ''<NA>'', ''N/A'', ''NA'', ''NULL'', ''NaN'',
                ''None'', ''n/a'', ''nan'', ''null'']"

definition or_nan :: "(string \<Rightarrow> cell option) \<Rightarrow> string \<Rightarrow> cell option" where
  "or_nan conv t = (if t \<in> set na_values then Some (FloatCell NaN) else conv t)"

definition type_column :: "string list \<Rightarrow> cell list" where
  "type_column toks =
     (let as_int = (\<lambda>t. map_option IntCell (int_token t));
          as_float = or_nan (\<lambda>t. map_option FloatCell (float_token t));
          as_bool = or_nan (\<lambda>t. map_option BoolCell (bool_token t));
          as_str = or_nan (\<lambda>t. Some (StrCell t))
      in if list_all (\<lambda>t. as_int t \<noteq> None) toks then map (\<lambda>t. the (as_int t)) toks
         else if list_all (\<lambda>t. as_float t \<noteq> None) toks then map (\<lambda>t. the (as_float t)) toks
         else if list_all (\<lambda>t. as_bool t \<noteq> None) toks then map (\<lambda>t. the (as_bool t)) toks
         else map (\<lambda>t. the (as_str t)) toks)"

text \<open>
  \<open>read_csv\<close> on the content of a file. The first record is the header. The first
  record of data may be longer than the header: the fields it has too many are the
  row labels, here and in every later record, and no part of the frame. A later record
  that is longer still is an error; a shorter one is filled up with missing values. A
  file with no record at all is an error, a file with a header only is a frame of no
  rows.
\<close>

definition csv_reader :: "string \<Rightarrow> cell dataframe option" where
  "csv_reader content =
     (case tokenize content of
        None \<Rightarrow> None
      | Some [] \<Rightarrow> None
      | Some (h # rows) \<Rightarrow>
          (let width = (case rows of [] \<Rightarrow> length h | r # rs \<Rightarrow> max (length h) (length r));
               padded = map (\<lambda>r. drop (width - length h) (r @ replicate (width - length r) []))
                            rows;
               columns = map (\<lambda>j. type_column (map (\<lambda>r. r ! j) padded)) [0..<length h]
           in if list_ex (\<lambda>r. width < length r) rows then None
              else Some \<lparr>df_columns = column_names h,
                         df_rows = map (\<lambda>i. map (\<lambda>c. c ! i) columns) [0..<length padded]\<rparr>))"

text \<open>
  A classifier that memorises the training rows: a row it has seen gets its training
  label, any other row a class drawn at random when the model is fitted, with the
  generator that \<open>random_state\<close> seeds, or with the global one when there is no
  \<open>random_state\<close>. Like sklearn's it wants two classes at least, checks the number
  of features, and gives one probability column per class. With \<open>strict\<close> it
  refuses a matrix of no rows, as sklearn does; without, it answers with empty arrays.
\<close>

record memo_model =
  mm_ncols :: nat
  mm_classes :: "cell list"
  mm_table :: "(cell list \<times> cell) list"
  mm_default :: cell

definition memo_fit ::
  "bool \<Rightarrow> hyperparams \<Rightarrow> nat \<Rightarrow> cell ndarray2 \<Rightarrow> cell list \<Rightarrow> string + memo_model" where
  "memo_fit strict hp g X y =
     (if strict \<and> arr_rows X = [] then Inl ''ValueError: 0 samples''
      else if length (remdups y) < 2 then Inl ''ValueError: 1 class''
      else let draw = (case random_state hp of Some seed \<Rightarrow> seed | None \<Rightarrow> g)
           in Inr \<lparr>mm_ncols = arr_ncols X, mm_classes = remdups y,
                   mm_table = zip (arr_rows X) y,
                   mm_default = remdups y ! (draw mod length (remdups y))\<rparr>)"

definition memo_label :: "memo_model \<Rightarrow> cell list \<Rightarrow> cell" where
  "memo_label m r = (case map_of (mm_table m) r of Some l \<Rightarrow> l | None \<Rightarrow> mm_default m)"

definition memo_predict :: "bool \<Rightarrow> memo_model \<Rightarrow> cell ndarray2 \<Rightarrow> string + cell list" where
  "memo_predict strict m X =
     (if strict \<and> arr_rows X = [] then Inl ''ValueError: 0 samples''
      else if arr_ncols X \<noteq> mm_ncols m then Inl ''ValueError: n_features''
      else Inr (map (memo_label m) (arr_rows X)))"

definition memo_predict_proba ::
  "bool \<Rightarrow> memo_model \<Rightarrow> cell ndarray2 \<Rightarrow> string + pyfloat ndarray2" where
  "memo_predict_proba strict m X =
     (if strict \<and> arr_rows X = [] then Inl ''ValueError: 0 samples''
      else if arr_ncols X \<noteq> mm_ncols m then Inl ''ValueError: n_features''
      else Inr \<lparr>arr_ncols = length (mm_classes m),
                arr_rows = map (\<lambda>r. map (\<lambda>c. if c = memo_label m r then Finite 1 else Finite 0)
                                         (mm_classes m))
                               (arr_rows X)\<rparr>)"

definition memo_classifier :: "bool \<Rightarrow> (cell, memo_model) classifier" where
  "memo_classifier strict =
     \<lparr>fit = memo_fit strict, predict = memo_predict strict,
      predict_proba = memo_predict_proba strict\<rparr>"

text \<open>
  The decimal expansion of a rational, to 17 fractional digits at most: what
  \<open>float.__repr__\<close> prints for the doubles of the runs below (0.0, 0.5, 1.0).
\<close>

fun frac_digits :: "nat \<Rightarrow> rat \<Rightarrow> string" where
  "frac_digits 0 r = []"
| "frac_digits (Suc n) r =
     (if r = 0 then []
      else let d = nat \<lfloor>r * 10\<rfloor> in digit_char d # frac_digits n (r * 10 - of_nat d))"

definition decimal_repr :: "rat \<Rightarrow> string" where
  "decimal_repr q =
     (let a = \<bar>q\<bar>; i = nat \<lfloor>a\<rfloor>; f = frac_digits 17 (a - of_nat i)
      in (if q < 0 then ''-'' else []) @ nat_digits i @ ''.'' @ (if f = [] then ''0'' else f))"

text \<open>
  A JSON string: quotation mark, backslash and line feed are escaped, any other
  character of the examples is written as it is.
\<close>

definition json_escape :: "char \<Rightarrow> string" where
  "json_escape c =
     (if c = CHR 0x0A then [CHR 0x5C, CHR ''n'']
      else if c = CHR 0x22 then [CHR 0x5C, CHR 0x22]
      else if c = CHR 0x5C then [CHR 0x5C, CHR 0x5C]
      else [c])"

definition json_string :: "string \<Rightarrow> string" where
  "json_string s = [CHR 0x22] @ concat (map json_escape s) @ [CHR 0x22]"

text \<open>
  A label after \<open>tolist()\<close> is a Python \<open>int\<close>, \<open>float\<close>, \<open>bool\<close> or \<open>str\<close>,
  and \<open>json.dumps\<close> writes it as such.
\<close>

definition cell_repr :: "cell \<Rightarrow> string" where
  "cell_repr v =
     (case v of
        IntCell i \<Rightarrow> (if i < 0 then ''-'' else []) @ nat_digits (nat \<bar>i\<bar>)
      | FloatCell x \<Rightarrow> dumps_float decimal_repr x
      | BoolCell b \<Rightarrow> (if b then ''true'' else ''false'')
      | StrCell s \<Rightarrow> json_string s)"

definition example_libs :: "bool \<Rightarrow> (cell, memo_model) libs" where
  "example_libs strict =
     \<lparr>parse_csv = csv_reader, clf_lib = memo_classifier strict,
      float_repr = decimal_repr, label_repr = cell_repr\<rparr>"

definition w0 :: "cell world" where
  "w0 = \<lparr>oracle_log = [], stdout = [], entropy = 0\<rparr>"

text \<open>Another process: the global generator is in another state.\<close>

definition w7 :: "cell world" where
  "w7 = \<lparr>oracle_log = [], stdout = [], entropy = 7\<rparr>"

text \<open>Three classes, three features; the second test row is new to the classifier.\<close>

definition train_csv :: string where
  "train_csv = ''f1,f2,f3,label'' @ [CHR 0x0A] @ ''1,2,3,0'' @ [CHR 0x0A] @
               ''4,5,6,1'' @ [CHR 0x0A] @ ''7,8,9,2'' @ [CHR 0x0A]"

definition test_csv :: string where
  "test_csv = ''f1,f2,f3,label'' @ [CHR 0x0A] @ ''1,2,3,0'' @ [CHR 0x0A] @
              ''9,9,9,1'' @ [CHR 0x0A]"

definition fs_ok :: "string \<Rightarrow> node option" where
  "fs_ok = [''data'' \<mapsto> Directory, ''data/iris_train.csv'' \<mapsto> File train_csv,
            ''data/iris_test.csv'' \<mapsto> File test_csv]"

text \<open>The same two files in another directory, beside a file of no concern.\<close>

definition fs_moved :: "string \<Rightarrow> node option" where
  "fs_moved = [''run2'' \<mapsto> Directory, ''run2/iris_train.csv'' \<mapsto> File train_csv,
               ''run2/iris_test.csv'' \<mapsto> File test_csv, ''run2/notes.txt'' \<mapsto> File ''x'']"

text \<open>A test file of a header and no row; a train file of a header and no row.\<close>

definition fs_empty_test :: "string \<Rightarrow> node option" where
  "fs_empty_test = [''data'' \<mapsto> Directory, ''data/iris_train.csv'' \<mapsto> File train_csv,
                    ''data/iris_test.csv'' \<mapsto> File (''f1,f2,f3,label'' @ [CHR 0x0A])]"

definition fs_empty_train :: "string \<Rightarrow> node option" where
  "fs_empty_train = [''data'' \<mapsto> Directory,
                     ''data/iris_train.csv'' \<mapsto> File (''f1,f2,f3,label'' @ [CHR 0x0A]),
                     ''data/iris_test.csv'' \<mapsto> File test_csv]"

text \<open>A test file whose feature columns have other names than those of the train file.\<close>

definition test_csv_renamed :: string where
  "test_csv_renamed = ''g1,g2,g3,label'' @ [CHR 0x0A] @ ''1,2,3,0'' @ [CHR 0x0A] @
                      ''9,9,9,1'' @ [CHR 0x0A]"

definition fs_renamed :: "string \<Rightarrow> node option" where
  "fs_renamed = [''data'' \<mapsto> Directory, ''data/iris_train.csv'' \<mapsto> File train_csv,
                 ''data/iris_test.csv'' \<mapsto> File test_csv_renamed]"

text \<open>A test file with no \<open>label\<close> column.\<close>

definition fs_no_label :: "string \<Rightarrow> node option" where
  "fs_no_label = [''data'' \<mapsto> Directory, ''data/iris_train.csv'' \<mapsto> File train_csv,
                  ''data/iris_test.csv'' \<mapsto>
                    File (''f1,f2,f3,target'' @ [CHR 0x0A] @ ''1,2,3,0'' @ [CHR 0x0A])]"




definition fs_none :: "string \<Rightarrow> node option" where
  "fs_none = Map.empty"

section \<open>Properties\<close>

subsection \<open>Rounding to a double\<close>

lemma round_half_even_nonneg: "0 \<le> x \<Longrightarrow> 0 \<le> round_half_even x"
  by (auto simp: round_half_even_def Let_def)


lemma round_half_even_le_int: "x \<le> of_int N \<Longrightarrow> round_half_even x \<le> N"
proof -
  assume le: "x \<le> of_int N"
  have f: "\<lfloor>x\<rfloor> \<le> N" using le by (simp add: floor_le_iff)
  show ?thesis
  proof (cases "x - of_int \<lfloor>x\<rfloor> < 1 / 2")
    case True
    then show ?thesis using f by (simp add: round_half_even_def Let_def)
  next
    case False
    have "\<lfloor>x\<rfloor> \<noteq> N"
    proof
      assume "\<lfloor>x\<rfloor> = N"
      then have "of_int N \<le> x" using of_int_floor_le [of x] by simp
      with le have "x = of_int N" by simp
      with False show False by simp
    qed
    with f have "\<lfloor>x\<rfloor> + 1 \<le> N" by simp
    then show ?thesis using f by (auto simp add: round_half_even_def Let_def)
  qed
qed

lemma round_half_even_close: "\<bar>of_int (round_half_even x) - x\<bar> \<le> 1 / 2"
proof -
  have "of_int \<lfloor>x\<rfloor> \<le> x" "x < of_int \<lfloor>x\<rfloor> + 1" by linarith+
  then show ?thesis
    by (auto simp: round_half_even_def Let_def abs_le_iff)
qed

lemma bitlen_mono: "a \<le> b \<Longrightarrow> bitlen a \<le> bitlen b"
  by (simp add: bitlen_def floorlog_mono)

lemma binade_le0: "0 < q \<Longrightarrow> q \<le> 1 \<Longrightarrow> binade q \<le> 0"
proof -
  assume q: "0 < q" "q \<le> 1"
  obtain a b where ab: "quotient_of q = (a, b)" by (cases "quotient_of q")
  have b: "0 < b" using ab quotient_of_denom_pos by blast
  have "q = of_int a / of_int b" using ab quotient_of_div by blast
  with q b have "a \<le> b" by (simp add: field_simps)
  then have "bitlen a \<le> bitlen b" by (rule bitlen_mono)
  then show ?thesis using ab by (simp add: binade_def Let_def)
qed

lemma binade_neg: "0 < q \<Longrightarrow> q < 1 \<Longrightarrow> binade q < 0"
proof -
  assume q: "0 < q" "q < 1"
  obtain a b where ab: "quotient_of q = (a, b)" by (cases "quotient_of q")
  have b: "0 < b" using ab quotient_of_denom_pos by blast
  have "q = of_int a / of_int b" using ab quotient_of_div by blast
  with q b have "a \<le> b" by (simp add: field_simps)
  then have le: "bitlen a \<le> bitlen b" by (rule bitlen_mono)
  show ?thesis
  proof (cases "bitlen a = bitlen b")
    case True
    then show ?thesis using ab q by (simp add: binade_def Let_def pow2_def)
  next
    case False
    then show ?thesis using ab le by (simp add: binade_def Let_def)
  qed
qed

lemma float64_round_unit:
  assumes "0 \<le> q" "q \<le> 1"
  shows "0 \<le> float64_round q \<and> float64_round q \<le> 1"
proof (cases "q = 0")
  case True
  then show ?thesis by (simp add: float64_round_def)
next
  case False
  with assms have q: "0 < q" by simp
  define e where "e = max (binade \<bar>q\<bar>) (- 1022) - 52"
  have e: "e \<le> 0" using binade_le0 [OF q assms(2)] q by (simp add: e_def)
  define N where "N = (2::int) ^ nat (- e)"
  have ulp: "pow2 e = 1 / of_int N"
    using e by (cases "e = 0") (simp_all add: pow2_def N_def)
  have N: "0 < N" by (simp add: N_def)
  have val: "float64_round q = of_int (round_half_even (q * of_int N)) / of_int N"
    using False by (simp add: float64_round_def Let_def e_def [symmetric] ulp)
  have "q * of_int N \<le> of_int N" using assms(2) N by (simp add: mult_le_cancel_right1)
  then have up: "round_half_even (q * of_int N) \<le> N" by (rule round_half_even_le_int)
  have "0 \<le> q * of_int N" using q N by simp
  then have lo: "0 \<le> round_half_even (q * of_int N)" by (rule round_half_even_nonneg)
  show ?thesis using up lo N by (simp add: val field_simps)
qed

lemma float64_round_ok: "float64_round (1 / 2) = 1 / 2" "float64_round 1 = 1"
  by code_simp+

text \<open>On the unit interval the double is within \<open>2^(-54)\<close> of the rational it stands for.\<close>

lemma float64_round_close:
  assumes "0 \<le> q" "q \<le> 1"
  shows "\<bar>float64_round q - q\<bar> \<le> 1 / 2 ^ 54"
proof (cases "q = 0 \<or> q = 1")
  case True
  then show ?thesis using float64_round_ok(2) by (auto simp: float64_round_def)
next
  case False
  with assms have q: "0 < q" "q < 1" by simp_all
  define e where "e = max (binade q) (- 1022) - 52"
  have e: "e \<le> - 53" using binade_neg [OF q] q by (simp add: e_def)
  define N :: rat where "N = 2 ^ nat (- e)"
  have ulp: "pow2 e = 1 / N" using e by (simp add: pow2_def N_def)
  have "(2::rat) ^ 53 \<le> 2 ^ nat (- e)" using e by (intro power_increasing) simp_all
  then have N: "2 ^ 53 \<le> N" by (simp add: N_def)
  then have Npos: "0 < N" by simp
  have val: "float64_round q = of_int (round_half_even (q * N)) / N"
    using q by (simp add: float64_round_def Let_def e_def [symmetric] ulp)
  have "float64_round q - q = (of_int (round_half_even (q * N)) - q * N) / N"
    using Npos by (simp add: val field_simps)
  then have "\<bar>float64_round q - q\<bar> = \<bar>of_int (round_half_even (q * N)) - q * N\<bar> / N"
    using Npos by (simp add: abs_divide)
  also have "\<dots> \<le> (1 / 2) / N"
    using round_half_even_close [of "q * N"] Npos by (intro divide_right_mono) simp_all
  also have "\<dots> \<le> (1 / 2) / 2 ^ 53"
    using N by (intro divide_left_mono) simp_all
  finally show ?thesis by simp
qed

subsection \<open>Steps of a run\<close>

lemma bnd_lift_Inl [simp]: "bnd (lift (Inl e)) f w = (Inl e, w)"
  by (simp add: bnd_def lift_def)

lemma bnd_lift_Inr [simp]: "bnd (lift (Inr a)) f w = f a w"
  by (simp add: bnd_def lift_def)

lemma and_then_Inr_iff: "and_then r f = Inr b \<longleftrightarrow> (\<exists>a. r = Inr a \<and> f a = Inr b)"
  by (cases r) (simp_all add: and_then_def)

lemma and_then_simps [simp]:
  "and_then (Inl e) f = Inl e" "and_then (Inr a) f = f a"
  by (simp_all add: and_then_def)

lemma drop_columns_label:
  "drop_columns df [''label''] =
     (if ''label'' \<in> set (df_columns df)
      then Inr \<lparr>df_columns = filter (\<lambda>c. c \<noteq> ''label'') (df_columns df),
                df_rows = map (\<lambda>r. map snd (filter (\<lambda>(c, v). c \<noteq> ''label'')
                                                  (zip (df_columns df) r))) (df_rows df)\<rparr>
      else Inl (KeyError [''label'']))"
  by (simp add: drop_columns_def)

lemma load_splits_Inr_iff:
  "load_splits L fs arg = Inr (Xtr, ytr, Xte, yte) \<longleftrightarrow>
     (\<exists>train_df test_df trf tef.
        read_csv (parse_csv L) fs (train_path arg) = Inr train_df \<and>
        read_csv (parse_csv L) fs (test_path arg) = Inr test_df \<and>
        drop_columns train_df [''label''] = Inr trf \<and>
        getitem train_df ''label'' = Inr ytr \<and>
        drop_columns test_df [''label''] = Inr tef \<and>
        getitem test_df ''label'' = Inr yte \<and>
        Xtr = df_values trf \<and> Xte = df_values tef)"
  unfolding load_splits_def and_then_Inr_iff by auto

lemma drop_columns_rows:
  "drop_columns df cs = Inr d \<Longrightarrow> length (df_rows d) = length (df_rows df)"
  by (auto simp: drop_columns_def Let_def split: if_splits)

lemma getitem_length:
  "getitem df c = Inr ys \<Longrightarrow> length ys = length (df_rows df)"
  by (auto simp: getitem_def split: if_splits)

lemma load_splits_rows:
  assumes "load_splits L fs arg = Inr (Xtr, ytr, Xte, yte)"
  shows "\<exists>train_df test_df.
           read_csv (parse_csv L) fs (train_path arg) = Inr train_df \<and>
           read_csv (parse_csv L) fs (test_path arg) = Inr test_df \<and>
           length (arr_rows Xtr) = length (df_rows train_df) \<and>
           length ytr = length (df_rows train_df) \<and>
           length (arr_rows Xte) = length (df_rows test_df) \<and>
           length yte = length (df_rows test_df)"
  using assms unfolding load_splits_Inr_iff
  by (auto simp: df_values_def dest!: drop_columns_rows getitem_length)



lemma load_no_label:
  assumes "read_csv (parse_csv L) fs (train_path arg) = Inr train_df"
      and "read_csv (parse_csv L) fs (test_path arg) = Inr test_df"
      and "''label'' \<notin> set (df_columns train_df) \<or> ''label'' \<notin> set (df_columns test_df)"
  shows "load_splits L fs arg = Inl (KeyError [''label''])"
  using assms by (auto simp: load_splits_def drop_columns_label getitem_def)

lemma fit_classifier_run:
  "fit_classifier L X y w =
     (case fit (clf_lib L) parity_params (entropy w) X y of
        Inl x \<Rightarrow> Inl (OracleError x) | Inr m \<Rightarrow> Inr m,
      w\<lparr>oracle_log := oracle_log w @ [Construct parity_params, Fit X y]\<rparr>)"
  by (simp add: fit_classifier_def parity_params_def bnd_def oracle_call_def Let_def)

text \<open>
  What \<open>score\<close> returns and the calls it makes do not depend on the world it starts
  in: it only adds its calls to the log.
\<close>

lemma score_run:
  "\<exists>r qs. list_all is_query qs \<and>
           (\<forall>w. score L m Xtr ytr Xte yte w = (r, w\<lparr>oracle_log := oracle_log w @ qs\<rparr>))"
proof -
  have call: "bnd (oracle_call c x) f w =
      (case x of Inl t \<Rightarrow> (Inl (OracleError t), w\<lparr>oracle_log := oracle_log w @ [c]\<rparr>)
               | Inr a \<Rightarrow> f a (w\<lparr>oracle_log := oracle_log w @ [c]\<rparr>))"
    for c :: "'a call" and x :: "string + 'c" and f :: "'c \<Rightarrow> ('a, 'd) prog" and w
    by (cases x) (simp_all add: bnd_def oracle_call_def)
  have step: "\<exists>r qs. list_all is_query qs \<and>
                 (\<forall>w. bnd (oracle_call c x) f w = (r, w\<lparr>oracle_log := oracle_log w @ qs\<rparr>))"
    if "is_query c"
      and "\<And>a. x = Inr a \<Longrightarrow> \<exists>r qs. list_all is_query qs \<and>
                 (\<forall>w. f a w = (r, w\<lparr>oracle_log := oracle_log w @ qs\<rparr>))"
    for c :: "'a call" and x :: "string + 'c" and f :: "'c \<Rightarrow> ('a, 'd) prog"
  proof (cases x)
    case (Inl t)
    have "list_all is_query [c] \<and>
          (\<forall>w. bnd (oracle_call c x) f w = (Inl (OracleError t), w\<lparr>oracle_log := oracle_log w @ [c]\<rparr>))"
      using that(1) Inl by (simp add: call)
    then show ?thesis by blast
  next
    case (Inr a)
    from that(2) [OF Inr] obtain r qs where
      qs: "list_all is_query qs" "\<And>w. f a w = (r, w\<lparr>oracle_log := oracle_log w @ qs\<rparr>)"
      by blast
    have "list_all is_query (c # qs) \<and>
          (\<forall>w. bnd (oracle_call c x) f w = (r, w\<lparr>oracle_log := oracle_log w @ c # qs\<rparr>))"
      using that(1) Inr qs by (simp add: call)
    then show ?thesis by blast
  qed
  have pure: "\<exists>r qs. list_all is_query qs \<and>
                 (\<forall>w. bnd (lift x) f w = (r, w\<lparr>oracle_log := oracle_log w @ qs\<rparr>))"
    if "\<And>a. x = Inr a \<Longrightarrow> \<exists>r qs. list_all is_query qs \<and>
                 (\<forall>w. f a w = (r, w\<lparr>oracle_log := oracle_log w @ qs\<rparr>))"
    for x :: "py_error + 'c" and f :: "'c \<Rightarrow> ('a, 'd) prog"
  proof (cases x)
    case (Inl e)
    have "list_all is_query ([] :: 'a call list) \<and>
          (\<forall>w :: 'a world. bnd (lift x) f w = (Inl e, w\<lparr>oracle_log := oracle_log w @ []\<rparr>))"
      using Inl by simp
    then show ?thesis by blast
  next
    case (Inr a)
    with that [OF Inr] show ?thesis by simp
  qed
  have fin: "\<exists>r qs. list_all is_query qs \<and>
                 (\<forall>w :: 'a world. ret a w = (r, w\<lparr>oracle_log := oracle_log w @ qs\<rparr>))" for a :: 'd
  proof -
    have "list_all is_query ([] :: 'a call list) \<and>
          (\<forall>w :: 'a world. ret a w = (Inr a, w\<lparr>oracle_log := oracle_log w @ []\<rparr>))"
      by (simp add: ret_def)
    then show ?thesis by blast
  qed
  show ?thesis
    unfolding score_def
    by (intro step pure fin) (simp_all add: is_query_def)
qed

lemma score_Inr:
  assumes "score L m Xtr ytr Xte yte w = (Inr result, w')"
  shows "\<exists>P preds ptr hte htr.
           predict_proba (clf_lib L) m Xte = Inr P \<and> 1 < arr_ncols P \<and>
           predict (clf_lib L) m Xte = Inr preds \<and>
           predict (clf_lib L) m Xtr = Inr ptr \<and>
           np_eq preds yte = Inr hte \<and>
           np_eq ptr ytr = Inr htr \<and>
           result = [(''test_probabilities'', JList (map (\<lambda>r. JFloat (r ! 1)) (arr_rows P))),
                     (''test_predictions'', JList (map JLabel preds)),
                     (''test_accuracy'', JFloat (np_mean hte)),
                     (''train_accuracy'', JFloat (np_mean htr))] \<and>
           w' = w\<lparr>oracle_log := oracle_log w @ [PredictProba Xte, Predict Xte, Predict Xte, Predict Xtr]\<rparr>"
  using assms
  unfolding score_def bnd_def lift_def oracle_call_def ret_def take_column_def
  by (auto split: sum.splits if_splits simp: comp_def)

lemma score_effects:
  assumes "score L m Xtr ytr Xte yte w = (r, w')"
  shows "\<exists>qs. oracle_log w' = oracle_log w @ qs \<and> list_all is_query qs \<and> stdout w' = stdout w"
  using assms
  unfolding score_def bnd_def lift_def oracle_call_def ret_def take_column_def
  by (auto split: sum.splits if_splits prod.splits simp: is_query_def)

lemma main_result_loaded:
  assumes "load_splits L fs arg = Inr (Xtr, ytr, Xte, yte)"
  shows "main_result L fs arg w =
           (case fit (clf_lib L) parity_params (entropy w) Xtr ytr of
              Inl x \<Rightarrow> (Inl (OracleError x),
                        w\<lparr>oracle_log := oracle_log w @ [Construct parity_params, Fit Xtr ytr]\<rparr>)
            | Inr m \<Rightarrow> score L m Xtr ytr Xte yte
                        (w\<lparr>oracle_log := oracle_log w @ [Construct parity_params, Fit Xtr ytr]\<rparr>))"
  using assms
  by (simp add: main_result_def bnd_def [of "fit_classifier L Xtr ytr"] fit_classifier_run
      split: sum.splits)

lemma main_result_not_loaded:
  "load_splits L fs arg = Inl e \<Longrightarrow> main_result L fs arg w = (Inl e, w)"
  by (simp add: main_result_def)

lemma main_Inl:
  "main_result L fs arg w = (Inl e, w') \<Longrightarrow> main L fs arg w = (Inl e, w')"
  by (simp add: main_def bnd_def)

lemma main_Inr:
  "main_result L fs arg w = (Inr result, w') \<Longrightarrow>
   main L fs arg w =
     (Inr (), w'\<lparr>stdout := stdout w' @ json_dumps (float_repr L) (label_repr L) (JDict result)
                             @ [CHR 0x0A]\<rparr>)"
  by (simp add: main_def bnd_def print_def)

lemma main_cases:
  obtains (failed) e w' where "main_result L fs arg w = (Inl e, w')" "main L fs arg w = (Inl e, w')"
  | (printed) result w' where "main_result L fs arg w = (Inr result, w')"
      "main L fs arg w =
         (Inr (), w'\<lparr>stdout := stdout w' @ json_dumps (float_repr L) (label_repr L) (JDict result)
                                 @ [CHR 0x0A]\<rparr>)"
proof (cases "main_result L fs arg w")
  case (Pair r w')
  then show ?thesis
    by (cases r) (auto intro: failed printed dest: main_Inl main_Inr)
qed

lemma main_result_Inr:
  assumes "main_result L fs arg w = (Inr result, w')"
  shows "\<exists>Xtr ytr Xte yte m P preds ptr hte htr.
           load_splits L fs arg = Inr (Xtr, ytr, Xte, yte) \<and>
           fit (clf_lib L) parity_params (entropy w) Xtr ytr = Inr m \<and>
           predict_proba (clf_lib L) m Xte = Inr P \<and> 1 < arr_ncols P \<and>
           predict (clf_lib L) m Xte = Inr preds \<and>
           predict (clf_lib L) m Xtr = Inr ptr \<and>
           np_eq preds yte = Inr hte \<and>
           np_eq ptr ytr = Inr htr \<and>
           result = [(''test_probabilities'', JList (map (\<lambda>r. JFloat (r ! 1)) (arr_rows P))),
                     (''test_predictions'', JList (map JLabel preds)),
                     (''test_accuracy'', JFloat (np_mean hte)),
                     (''train_accuracy'', JFloat (np_mean htr))] \<and>
           stdout w' = stdout w"
proof (cases "load_splits L fs arg")
  case (Inl e)
  then show ?thesis using assms by (simp add: main_result_not_loaded)
next
  case (Inr t)
  obtain Xtr ytr Xte yte where t: "t = (Xtr, ytr, Xte, yte)" by (cases t)
  note loaded = Inr [unfolded t]
  show ?thesis
  proof (cases "fit (clf_lib L) parity_params (entropy w) Xtr ytr")
    case (Inl x)
    then show ?thesis using assms by (simp add: main_result_loaded [OF loaded])
  next
    case (Inr m)
    with assms have "score L m Xtr ytr Xte yte
        (w\<lparr>oracle_log := oracle_log w @ [Construct parity_params, Fit Xtr ytr]\<rparr>) = (Inr result, w')"
      by (simp add: main_result_loaded [OF loaded])
    from score_Inr [OF this] obtain P preds ptr hte htr where
      "predict_proba (clf_lib L) m Xte = Inr P" "1 < arr_ncols P"
      "predict (clf_lib L) m Xte = Inr preds" "predict (clf_lib L) m Xtr = Inr ptr"
      "np_eq preds yte = Inr hte" "np_eq ptr ytr = Inr htr"
      "result = [(''test_probabilities'', JList (map (\<lambda>r. JFloat (r ! 1)) (arr_rows P))),
                 (''test_predictions'', JList (map JLabel preds)),
                 (''test_accuracy'', JFloat (np_mean hte)),
                 (''train_accuracy'', JFloat (np_mean htr))]"
      "stdout w' = stdout w"
      by auto
    with loaded Inr show ?thesis by blast
  qed
qed

subsection \<open>The example libraries and runs\<close>

lemma paths_default:
  "train_path None = ''data/iris_train.csv''" "test_path None = ''data/iris_test.csv''"
  by (simp_all add: train_path_def test_path_def data_dir_def path_join_def)

lemma paths_run2:
  "train_path (Some ''run2'') = ''run2/iris_train.csv''"
  "test_path (Some ''run2'') = ''run2/iris_test.csv''"
  by (simp_all add: train_path_def test_path_def data_dir_def path_join_def)

lemma memo_one_per_row: "one_per_row (clf_lib (example_libs strict))"
  by (auto simp: one_per_row_def example_libs_def memo_classifier_def memo_predict_def
      memo_predict_proba_def split: if_splits)

lemma memo_refuses_empty: "refuses_empty (clf_lib (example_libs True))"
  by (simp add: refuses_empty_def example_libs_def memo_classifier_def memo_fit_def
      memo_predict_def memo_predict_proba_def)

lemma digit_char_newline_free: "digit_char d \<noteq> CHR 0x0A" "CHR 0x0A \<noteq> digit_char d"
proof -
  have "d mod 10 < length ''0123456789''" by simp
  then have "digit_char d \<in> set ''0123456789''"
    unfolding digit_char_def by (rule nth_mem)
  then show "digit_char d \<noteq> CHR 0x0A" "CHR 0x0A \<noteq> digit_char d" by auto
qed

lemma nat_digits_newline_free: "CHR 0x0A \<notin> set (nat_digits n)"
proof (induction n rule: nat_digits.induct)
  case (1 n)
  then show ?case
    by (subst nat_digits.simps) (auto simp: digit_char_newline_free)
qed

lemma frac_digits_newline_free: "CHR 0x0A \<notin> set (frac_digits n r)"
  by (induction n r rule: frac_digits.induct) (auto simp: Let_def digit_char_newline_free)

lemma decimal_repr_newline_free: "newline_free (decimal_repr q)"
  using nat_digits_newline_free frac_digits_newline_free
  by (auto simp: newline_free_def decimal_repr_def Let_def)

lemma json_string_newline_free: "newline_free (json_string s)"
  by (auto simp: newline_free_def json_string_def json_escape_def split: if_splits)

lemma cell_repr_newline_free: "newline_free (cell_repr v)"
proof (cases v)
  case (IntCell i)
  then show ?thesis
    using nat_digits_newline_free [of "nat \<bar>i\<bar>"] by (simp add: cell_repr_def newline_free_def)
next
  case (FloatCell x)
  then show ?thesis
    using decimal_repr_newline_free by (cases x) (simp_all add: cell_repr_def newline_free_def)
next
  case (BoolCell b)
  then show ?thesis by (simp add: cell_repr_def newline_free_def)
next
  case (StrCell s)
  then show ?thesis by (simp add: cell_repr_def json_string_newline_free)
qed

lemma example_reprs_newline_free:
  "\<forall>q. newline_free (float_repr (example_libs strict) q)"
  "\<forall>v. newline_free (label_repr (example_libs strict) v)"
  by (simp_all add: example_libs_def decimal_repr_newline_free cell_repr_newline_free)

text \<open>
  The reader on a few small files: a short record is filled up with missing values
  (and its column becomes a float column), records may end with carriage return and
  line feed, a repeated column name is renamed, a quoted field may hold a comma, and
  a record longer than the ones before is an error.
\<close>

lemma csv_reader_short_record:
  "csv_reader (''a,b'' @ [CHR 0x0A] @ ''1,2'' @ [CHR 0x0A] @ ''3'' @ [CHR 0x0A]) =
     Some \<lparr>df_columns = [''a'', ''b''],
           df_rows = [[IntCell 1, FloatCell (Finite 2)], [IntCell 3, FloatCell NaN]]\<rparr>"
  by code_simp

lemma csv_reader_crlf:
  "csv_reader (''a,b'' @ [CHR 0x0D, CHR 0x0A] @ ''1,2'' @ [CHR 0x0D, CHR 0x0A]) =
     Some \<lparr>df_columns = [''a'', ''b''], df_rows = [[IntCell 1, IntCell 2]]\<rparr>"
  by code_simp

lemma csv_reader_repeated_name:
  "csv_reader (''a,a,a'' @ [CHR 0x0A] @ ''1,2,3'' @ [CHR 0x0A]) =
     Some \<lparr>df_columns = [''a'', ''a.1'', ''a.2''],
           df_rows = [[IntCell 1, IntCell 2, IntCell 3]]\<rparr>"
  by code_simp

lemma csv_reader_quoted:
  "csv_reader (''a,b'' @ [CHR 0x0A, CHR 0x22] @ ''x,y'' @ [CHR 0x22] @ '',1.5'' @ [CHR 0x0A]) =
     Some \<lparr>df_columns = [''a'', ''b''],
           df_rows = [[StrCell ''x,y'', FloatCell (Finite (3 / 2))]]\<rparr>"
  by code_simp

lemma csv_reader_long_record:
  "csv_reader (''a,b'' @ [CHR 0x0A] @ ''1,2'' @ [CHR 0x0A] @ ''3,4,5'' @ [CHR 0x0A]) = None"
  "csv_reader [] = None"
  by code_simp+

lemma load_ok:
  "load_splits (example_libs True) fs_ok None =
     Inr (\<lparr>arr_ncols = 3, arr_rows = [[IntCell 1, IntCell 2, IntCell 3], [IntCell 4, IntCell 5, IntCell 6], [IntCell 7, IntCell 8, IntCell 9]]\<rparr>,
          [IntCell 0, IntCell 1, IntCell 2],
          \<lparr>arr_ncols = 3, arr_rows = [[IntCell 1, IntCell 2, IntCell 3], [IntCell 9, IntCell 9, IntCell 9]]\<rparr>,
          [IntCell 0, IntCell 1])"
  by code_simp

subsection \<open>Failures of the loader\<close>

lemma main_not_loaded:
  "load_splits L fs arg = Inl e \<Longrightarrow> main L fs arg w = (Inl e, w)"
  by (simp add: main_Inl main_result_not_loaded)












text \<open>
  C8, as amended. When both files have been read and one of them has no \<open>label\<close>
  column, the run ends with the KeyError of \<open>drop\<close>, a schema failure, having
  printed nothing and called nothing. (The script does not compare the columns of the
  two files.)
\<close>

theorem missing_label_aborts:
  assumes "read_csv (parse_csv L) fs (train_path arg) = Inr train_df"
      and "read_csv (parse_csv L) fs (test_path arg) = Inr test_df"
      and "''label'' \<notin> set (df_columns train_df) \<or> ''label'' \<notin> set (df_columns test_df)"
  shows "main L fs arg w = (Inl (KeyError [''label'']), w) \<and>
         failure_class (KeyError [''label'']) = Some SchemaError"
  using load_no_label [OF assms] by (simp add: main_not_loaded)

theorem missing_label_aborts_witness:
  "read_csv (parse_csv (example_libs True)) fs_no_label (train_path None) =
     Inr \<lparr>df_columns = [''f1'', ''f2'', ''f3'', ''label''],
          df_rows = [[IntCell 1, IntCell 2, IntCell 3, IntCell 0], [IntCell 4, IntCell 5, IntCell 6, IntCell 1], [IntCell 7, IntCell 8, IntCell 9, IntCell 2]]\<rparr> \<and>
   read_csv (parse_csv (example_libs True)) fs_no_label (test_path None) =
     Inr \<lparr>df_columns = [''f1'', ''f2'', ''f3'', ''target''], df_rows = [[IntCell 1, IntCell 2, IntCell 3, IntCell 0]]\<rparr> \<and>
   main (example_libs True) fs_no_label None w0 = (Inl (KeyError [''label'']), w0) \<and>
   failure_class (KeyError [''label'']) = Some SchemaError"
proof -
  have a: "read_csv (parse_csv (example_libs True)) fs_no_label (train_path None) =
     Inr \<lparr>df_columns = [''f1'', ''f2'', ''f3'', ''label''],
          df_rows = [[IntCell 1, IntCell 2, IntCell 3, IntCell 0], [IntCell 4, IntCell 5, IntCell 6, IntCell 1], [IntCell 7, IntCell 8, IntCell 9, IntCell 2]]\<rparr>"
    by code_simp
  have b: "read_csv (parse_csv (example_libs True)) fs_no_label (test_path None) =
     Inr \<lparr>df_columns = [''f1'', ''f2'', ''f3'', ''target''], df_rows = [[IntCell 1, IntCell 2, IntCell 3, IntCell 0]]\<rparr>"
    by code_simp
  from missing_label_aborts [OF a b, of w0] a b show ?thesis by simp
qed

text \<open>
  C8 as it was stated fails on two files whose feature columns have different names:
  the frames are reduced to bare arrays, the names are lost, and the run prints its
  result.
\<close>

theorem renamed_columns_go_unnoticed:
  \<open>map_option df_columns (csv_reader train_csv) = Some [''f1'', ''f2'', ''f3'', ''label''] \<and>
   map_option df_columns (csv_reader test_csv_renamed) = Some [''g1'', ''g2'', ''g3'', ''label''] \<and>
   fs_renamed (train_path None) = Some (File train_csv) \<and>
   fs_renamed (test_path None) = Some (File test_csv_renamed) \<and>
   fst (main (example_libs True) fs_renamed None w0) = Inr () \<and>
   stdout (snd (main (example_libs True) fs_renamed None w0)) =
     ''{"test_probabilities": [0.0, 0.0], "test_predictions": [0, 0], "test_accuracy": 0.5, "train_accuracy": 1.0}''
       @ [CHR 0x0A]\<close>
  by code_simp


subsection \<open>Determinism\<close>

lemma read_csv_same_content:
  assumes "open_file fs1 p1 = Inr content" "open_file fs2 p2 = Inr content"
  shows "read_csv parse fs1 p1 = read_csv parse fs2 p2"
  using assms by (simp add: read_csv_def)

lemma load_splits_same_content:
  assumes "open_file fs1 (train_path arg1) = Inr train"
      and "open_file fs2 (train_path arg2) = Inr train"
      and "open_file fs1 (test_path arg1) = Inr test"
      and "open_file fs2 (test_path arg2) = Inr test"
  shows "load_splits L fs1 arg1 = load_splits L fs2 arg2"
  unfolding load_splits_def
  by (simp add: read_csv_same_content [OF assms(1,2)] read_csv_same_content [OF assms(3,4)])

text \<open>
  Once the splits are loaded, a run depends on the world it starts in through one
  thing only, the model that \<open>fit\<close> returns there: what is returned, the calls made
  and the bytes printed are the same in every world where \<open>fit\<close> returns \<open>x\<close>.
\<close>

lemma main_run:
  assumes "load_splits L fs arg = Inr (Xtr, ytr, Xte, yte)"
  shows "\<exists>r calls out. \<forall>w. fit (clf_lib L) parity_params (entropy w) Xtr ytr = x \<longrightarrow>
           main L fs arg w =
             (r, w\<lparr>oracle_log := oracle_log w @ calls, stdout := stdout w @ out\<rparr>)"
proof (cases x)
  case (Inl t)
  have "\<forall>w. fit (clf_lib L) parity_params (entropy w) Xtr ytr = x \<longrightarrow>
          main L fs arg w =
            (Inl (OracleError t),
             w\<lparr>oracle_log := oracle_log w @ [Construct parity_params, Fit Xtr ytr],
               stdout := stdout w @ []\<rparr>)"
    using Inl by (simp add: main_def bnd_def main_result_loaded [OF assms])
  then show ?thesis by blast
next
  case (Inr m)
  from score_run [of L m Xtr ytr Xte yte] obtain r qs where
    run: "\<And>w. score L m Xtr ytr Xte yte w = (r, w\<lparr>oracle_log := oracle_log w @ qs\<rparr>)"
    by blast
  show ?thesis
  proof (cases r)
    case (Inl e)
    have "\<forall>w. fit (clf_lib L) parity_params (entropy w) Xtr ytr = x \<longrightarrow>
            main L fs arg w =
              (Inl e,
               w\<lparr>oracle_log := oracle_log w @ ([Construct parity_params, Fit Xtr ytr] @ qs),
                 stdout := stdout w @ []\<rparr>)"
      using Inr Inl by (simp add: main_def bnd_def main_result_loaded [OF assms] run)
    then show ?thesis by blast
  next
    case (Inr result)
    have "\<forall>w. fit (clf_lib L) parity_params (entropy w) Xtr ytr = x \<longrightarrow>
            main L fs arg w =
              (Inr (),
               w\<lparr>oracle_log := oracle_log w @ ([Construct parity_params, Fit Xtr ytr] @ qs),
                 stdout := stdout w @
                   (json_dumps (float_repr L) (label_repr L) (JDict result) @ [CHR 0x0A])\<rparr>)"
      using \<open>x = Inr m\<close> Inr
      by (simp add: main_def bnd_def print_def main_result_loaded [OF assms] run)
    then show ?thesis by blast
  qed
qed

text \<open>
  C1. Two runs that find the same content in their \<open>iris_train.csv\<close> and in their
  \<open>iris_test.csv\<close> write the same bytes to standard output, make the same calls to
  the classifier and return the same: whatever the directory each was given, whatever
  else is on disk, whatever was printed before, and whatever the state of the global
  random generator in each of the two processes. This needs the classifier to be
  deterministic under a seed, and holds because the script passes one: \<open>fit\<close> is the
  one step that reads the generator.
\<close>

theorem same_files_same_output:
  assumes "seeded_deterministic (clf_lib L)"
      and "open_file fs1 (train_path arg1) = Inr train"
      and "open_file fs2 (train_path arg2) = Inr train"
      and "open_file fs1 (test_path arg1) = Inr test"
      and "open_file fs2 (test_path arg2) = Inr test"
  shows "\<exists>r calls out.
           main L fs1 arg1 w1 =
             (r, w1\<lparr>oracle_log := oracle_log w1 @ calls, stdout := stdout w1 @ out\<rparr>) \<and>
           main L fs2 arg2 w2 =
             (r, w2\<lparr>oracle_log := oracle_log w2 @ calls, stdout := stdout w2 @ out\<rparr>)"
proof -
  have same: "load_splits L fs1 arg1 = load_splits L fs2 arg2"
    using assms(2-5) by (rule load_splits_same_content)
  show ?thesis
  proof (cases "load_splits L fs1 arg1")
    case (Inl e)
    with same have "main L fs1 arg1 w1 = (Inl e, w1\<lparr>oracle_log := oracle_log w1 @ [],
                                                     stdout := stdout w1 @ []\<rparr>)"
                   "main L fs2 arg2 w2 = (Inl e, w2\<lparr>oracle_log := oracle_log w2 @ [],
                                                     stdout := stdout w2 @ []\<rparr>)"
      by (simp_all add: main_not_loaded)
    then show ?thesis by blast
  next
    case (Inr t)
    obtain Xtr ytr Xte yte where t: "t = (Xtr, ytr, Xte, yte)" by (cases t)
    have l1: "load_splits L fs1 arg1 = Inr (Xtr, ytr, Xte, yte)" using Inr t by simp
    have l2: "load_splits L fs2 arg2 = Inr (Xtr, ytr, Xte, yte)" using l1 same by simp
    define x where "x = fit (clf_lib L) parity_params (entropy w1) Xtr ytr"
    have seeded: "random_state parity_params \<noteq> None" by (simp add: parity_params_def)
    have x2: "fit (clf_lib L) parity_params (entropy w2) Xtr ytr = x"
      using assms(1) seeded unfolding x_def seeded_deterministic_def by blast
    from main_run [OF l1, of x] obtain r calls out where
      r1: "\<And>w. fit (clf_lib L) parity_params (entropy w) Xtr ytr = x \<Longrightarrow>
             main L fs1 arg1 w =
               (r, w\<lparr>oracle_log := oracle_log w @ calls, stdout := stdout w @ out\<rparr>)"
      by blast
    have eq: "main L fs2 arg2 = main L fs1 arg1"
      using same by (simp add: main_def main_result_def)
    have "main L fs1 arg1 w1 =
            (r, w1\<lparr>oracle_log := oracle_log w1 @ calls, stdout := stdout w1 @ out\<rparr>)"
      by (rule r1) (simp add: x_def)
    moreover have "main L fs2 arg2 w2 =
            (r, w2\<lparr>oracle_log := oracle_log w2 @ calls, stdout := stdout w2 @ out\<rparr>)"
      unfolding eq by (rule r1) (rule x2)
    ultimately show ?thesis by blast
  qed
qed

lemma memo_seeded: "seeded_deterministic (clf_lib (example_libs strict))"
  by (auto simp: seeded_deterministic_def example_libs_def memo_classifier_def memo_fit_def)

text \<open>
  Without a seed two processes do not agree: fitted on the train split of the
  examples in two states of the global generator, the classifier of the examples gives
  two models.
\<close>

lemma unseeded_fit_differs:
  "fit (clf_lib (example_libs True)) (parity_params\<lparr>random_state := None\<rparr>) (entropy w0)
     \<lparr>arr_ncols = 3, arr_rows = [[IntCell 1, IntCell 2, IntCell 3],
                                 [IntCell 4, IntCell 5, IntCell 6],
                                 [IntCell 7, IntCell 8, IntCell 9]]\<rparr>
     [IntCell 0, IntCell 1, IntCell 2] \<noteq>
   fit (clf_lib (example_libs True)) (parity_params\<lparr>random_state := None\<rparr>) (entropy w7)
     \<lparr>arr_ncols = 3, arr_rows = [[IntCell 1, IntCell 2, IntCell 3],
                                 [IntCell 4, IntCell 5, IntCell 6],
                                 [IntCell 7, IntCell 8, IntCell 9]]\<rparr>
     [IntCell 0, IntCell 1, IntCell 2]"
  by code_simp

theorem same_files_same_output_witness:
  \<open>seeded_deterministic (clf_lib (example_libs True)) \<and>
   open_file fs_ok (train_path None) = Inr train_csv \<and>
   open_file fs_moved (train_path (Some ''run2'')) = Inr train_csv \<and>
   open_file fs_ok (test_path None) = Inr test_csv \<and>
   open_file fs_moved (test_path (Some ''run2'')) = Inr test_csv \<and>
   entropy w0 = 0 \<and> entropy w7 = 7 \<and>
   (\<exists>r calls out.
      main (example_libs True) fs_ok None w0 =
        (r, w0\<lparr>oracle_log := oracle_log w0 @ calls, stdout := stdout w0 @ out\<rparr>) \<and>
      main (example_libs True) fs_moved (Some ''run2'') w7 =
        (r, w7\<lparr>oracle_log := oracle_log w7 @ calls, stdout := stdout w7 @ out\<rparr>)) \<and>
   stdout (snd (main (example_libs True) fs_ok None w0)) =
     ''{"test_probabilities": [0.0, 0.0], "test_predictions": [0, 0], "test_accuracy": 0.5, "train_accuracy": 1.0}''
       @ [CHR 0x0A] \<and>
   stdout (snd (main (example_libs True) fs_moved (Some ''run2'') w7)) =
     ''{"test_probabilities": [0.0, 0.0], "test_predictions": [0, 0], "test_accuracy": 0.5, "train_accuracy": 1.0}''
       @ [CHR 0x0A]\<close>
proof -
  have a: "open_file fs_ok (train_path None) = Inr train_csv"
          "open_file fs_moved (train_path (Some ''run2'')) = Inr train_csv"
          "open_file fs_ok (test_path None) = Inr test_csv"
          "open_file fs_moved (test_path (Some ''run2'')) = Inr test_csv"
    by code_simp+
  have g: "entropy w0 = 0" "entropy w7 = 7" by (simp_all add: w0_def w7_def)
  have c: \<open>stdout (snd (main (example_libs True) fs_ok None w0)) =
     ''{"test_probabilities": [0.0, 0.0], "test_predictions": [0, 0], "test_accuracy": 0.5, "train_accuracy": 1.0}''
       @ [CHR 0x0A]\<close>
    by code_simp
  have d: \<open>stdout (snd (main (example_libs True) fs_moved (Some ''run2'') w7)) =
     ''{"test_probabilities": [0.0, 0.0], "test_predictions": [0, 0], "test_accuracy": 0.5, "train_accuracy": 1.0}''
       @ [CHR 0x0A]\<close>
    by code_simp
  from same_files_same_output [OF memo_seeded a, of True w0 w7] memo_seeded [of True] a g c d
  show ?thesis by blast
qed

subsection \<open>Calls to the classifier\<close>

lemma main_effects_loaded:
  assumes "load_splits L fs arg = Inr (Xtr, ytr, Xte, yte)"
      and "main L fs arg w = (r, w')"
  shows "\<exists>queries. oracle_log w' = oracle_log w @ [Construct parity_params, Fit Xtr ytr] @ queries \<and>
                   list_all is_query queries"
proof (cases "fit (clf_lib L) parity_params (entropy w) Xtr ytr")
  case (Inl x)
  with assms have "w' = w\<lparr>oracle_log := oracle_log w @ [Construct parity_params, Fit Xtr ytr]\<rparr>"
    by (simp add: main_def bnd_def main_result_loaded)
  then show ?thesis by simp
next
  case (Inr m)
  define w1 where "w1 = w\<lparr>oracle_log := oracle_log w @ [Construct parity_params, Fit Xtr ytr]\<rparr>"
  obtain r2 w2 where s: "score L m Xtr ytr Xte yte w1 = (r2, w2)" by (cases "score L m Xtr ytr Xte yte w1")
  from score_effects [OF s] obtain qs where
    qs: "oracle_log w2 = oracle_log w1 @ qs" "list_all is_query qs" by blast
  have mr: "main_result L fs arg w = (r2, w2)"
    using Inr s by (simp add: main_result_loaded [OF assms(1)] w1_def)
  have "oracle_log w' = oracle_log w2"
    using assms(2) mr by (cases r2) (auto simp: main_def bnd_def print_def)
  with qs show ?thesis by (simp add: w1_def)
qed

text \<open>
  C3, as amended. On a run that gets past the loader (both files read, both with a
  \<open>label\<close> column) the classifier is constructed once, with exactly the arguments of
  the source, then fitted once, on the train split; every later call is a
  \<open>predict\<close> or a \<open>predict_proba\<close>. On a run that fails in the loader the
  classifier is never called.
\<close>

theorem classifier_fit_once:
  assumes "main L fs arg w = (r, w')"
  shows "(\<forall>X_train y_train X_test y_test.
            load_splits L fs arg = Inr (X_train, y_train, X_test, y_test) \<longrightarrow>
            (\<exists>queries.
               oracle_log w' = oracle_log w @
                 [Construct \<lparr>n_estimators = 100, learning_rate = 1 / 10, max_depth = 3,
                             min_samples_leaf = 1, subsample = 1, random_state = Some 42\<rparr>,
                  Fit X_train y_train] @ queries \<and>
               list_all is_query queries)) \<and>
         (\<forall>e. load_splits L fs arg = Inl e \<longrightarrow> oracle_log w' = oracle_log w)"
proof (intro conjI allI impI)
  fix X_train y_train X_test y_test
  assume "load_splits L fs arg = Inr (X_train, y_train, X_test, y_test)"
  from main_effects_loaded [OF this assms]
  show "\<exists>queries.
          oracle_log w' = oracle_log w @
            [Construct \<lparr>n_estimators = 100, learning_rate = 1 / 10, max_depth = 3,
                        min_samples_leaf = 1, subsample = 1, random_state = Some 42\<rparr>,
             Fit X_train y_train] @ queries \<and>
          list_all is_query queries"
    by (simp add: parity_params_def)
next
  fix e
  assume "load_splits L fs arg = Inl e"
  with assms show "oracle_log w' = oracle_log w" by (simp add: main_not_loaded)
qed


theorem classifier_fit_once_witness:
  "load_splits (example_libs True) fs_ok None =
     Inr (\<lparr>arr_ncols = 3, arr_rows = [[IntCell 1, IntCell 2, IntCell 3], [IntCell 4, IntCell 5, IntCell 6], [IntCell 7, IntCell 8, IntCell 9]]\<rparr>,
          [IntCell 0, IntCell 1, IntCell 2],
          \<lparr>arr_ncols = 3, arr_rows = [[IntCell 1, IntCell 2, IntCell 3], [IntCell 9, IntCell 9, IntCell 9]]\<rparr>,
          [IntCell 0, IntCell 1]) \<and>
   (\<exists>queries.
      oracle_log (snd (main (example_libs True) fs_ok None w0)) = oracle_log w0 @
        [Construct \<lparr>n_estimators = 100, learning_rate = 1 / 10, max_depth = 3,
                    min_samples_leaf = 1, subsample = 1, random_state = Some 42\<rparr>,
         Fit \<lparr>arr_ncols = 3, arr_rows = [[IntCell 1, IntCell 2, IntCell 3], [IntCell 4, IntCell 5, IntCell 6], [IntCell 7, IntCell 8, IntCell 9]]\<rparr>
             [IntCell 0, IntCell 1, IntCell 2]] @ queries \<and>
      list_all is_query queries) \<and>
   load_splits (example_libs True) fs_none None = Inl (FileNotFoundError ''data/iris_train.csv'') \<and>
   oracle_log (snd (main (example_libs True) fs_none None w0)) = oracle_log w0"
proof -
  have a: "load_splits (example_libs True) fs_none None = Inl (FileNotFoundError ''data/iris_train.csv'')"
    by code_simp
  have 1: "main (example_libs True) fs_ok None w0 =
             (fst (main (example_libs True) fs_ok None w0), snd (main (example_libs True) fs_ok None w0))"
    by simp
  have 2: "main (example_libs True) fs_none None w0 =
             (fst (main (example_libs True) fs_none None w0), snd (main (example_libs True) fs_none None w0))"
    by simp
  from classifier_fit_once [OF 1] classifier_fit_once [OF 2] load_ok a
  show ?thesis by blast
qed

text \<open>
  C3 as it was stated fails on a run that does not get past the loader: with no input
  files the classifier is not constructed at all.
\<close>

theorem no_files_no_classifier:
  "fst (main (example_libs True) fs_none None w0) = Inl (FileNotFoundError ''data/iris_train.csv'') \<and>
   oracle_log (snd (main (example_libs True) fs_none None w0)) = []"
  by code_simp

subsection \<open>The dictionary and the printed line\<close>



lemma main_split: "main L fs arg w = (fst (main L fs arg w), snd (main L fs arg w))"
  by simp

lemma run_ok_succeeds: "fst (main (example_libs True) fs_ok None w0) = Inr ()"
  by code_simp

lemma fit_ok:
  "fit (clf_lib (example_libs True)) parity_params (entropy w0)
     \<lparr>arr_ncols = 3, arr_rows = [[IntCell 1, IntCell 2, IntCell 3], [IntCell 4, IntCell 5, IntCell 6], [IntCell 7, IntCell 8, IntCell 9]]\<rparr>
     [IntCell 0, IntCell 1, IntCell 2] =
   Inr \<lparr>mm_ncols = 3, mm_classes = [IntCell 0, IntCell 1, IntCell 2],
        mm_table = [([IntCell 1, IntCell 2, IntCell 3], IntCell 0), ([IntCell 4, IntCell 5, IntCell 6], IntCell 1), ([IntCell 7, IntCell 8, IntCell 9], IntCell 2)],
     mm_default = IntCell 0\<rparr>"
  by code_simp

lemma newline_free_simps [simp]:
  "newline_free []"
  "newline_free (x # xs) \<longleftrightarrow> x \<noteq> CHR 0x0A \<and> newline_free xs"
  "newline_free (xs @ ys) \<longleftrightarrow> newline_free xs \<and> newline_free ys"
  by (auto simp: newline_free_def)

lemma join_str_newline_free:
  "newline_free sep \<Longrightarrow> list_all newline_free xs \<Longrightarrow> newline_free (join_str sep xs)"
  by (induction sep xs rule: join_str.induct) simp_all

lemma dumps_float_newline_free:
  "\<forall>q. newline_free (frepr q) \<Longrightarrow> newline_free (dumps_float frepr x)"
  by (cases x) simp_all

lemma dumps_list_newline_free:
  "list_all (\<lambda>j. newline_free (json_dumps frepr lrepr j)) js \<Longrightarrow>
   newline_free (json_dumps frepr lrepr (JList js))"
  by (simp add: join_str_newline_free list_all_iff)

lemma dumps_result:
  \<open>json_dumps frepr lrepr
      (JDict [(''test_probabilities'', a), (''test_predictions'', b),
              (''test_accuracy'', c), (''train_accuracy'', d)]) =
    ''{"test_probabilities": '' @ json_dumps frepr lrepr a @
    '', "test_predictions": '' @ json_dumps frepr lrepr b @
    '', "test_accuracy": '' @ json_dumps frepr lrepr c @
    '', "train_accuracy": '' @ json_dumps frepr lrepr d @ ''}''\<close>
  by simp

lemma main_printed:
  assumes "main L fs arg w = (Inr u, w')"
  shows "\<exists>result. main_result L fs arg w = (Inr result, w'\<lparr>stdout := stdout w\<rparr>) \<and>
           stdout w' = stdout w @ json_dumps (float_repr L) (label_repr L) (JDict result) @ [CHR 0x0A] \<and>
           oracle_log w' = oracle_log (w'\<lparr>stdout := stdout w\<rparr>)"
proof (cases L fs arg w rule: main_cases)
  case (failed e w'')
  with assms show ?thesis by simp
next
  case (printed result w'')
  from main_result_Inr [OF printed(1)] have "stdout w'' = stdout w" by blast
  with printed assms show ?thesis by (intro exI [of _ result]) auto
qed

lemma dumps_line:
  \<open>json_dumps frepr lrepr
      (JDict [(''test_probabilities'', JList (map JFloat probs)),
              (''test_predictions'', JList (map JLabel preds)),
              (''test_accuracy'', JFloat a), (''train_accuracy'', JFloat b)]) =
    ''{"test_probabilities": ['' @ join_str '', '' (map (dumps_float frepr) probs) @
    ''], "test_predictions": ['' @ join_str '', '' (map lrepr preds) @
    ''], "test_accuracy": '' @ dumps_float frepr a @
    '', "train_accuracy": '' @ dumps_float frepr b @ ''}''\<close>
  by (simp add: comp_def)

text \<open>What a run that prints has done, and the line it has printed.\<close>

lemma main_line:
  assumes "main L fs arg w = (Inr u, w')"
  shows \<open>\<exists>Xtr ytr Xte yte m P preds ptr hte htr.
           load_splits L fs arg = Inr (Xtr, ytr, Xte, yte) \<and>
           fit (clf_lib L) parity_params (entropy w) Xtr ytr = Inr m \<and>
           predict_proba (clf_lib L) m Xte = Inr P \<and> 1 < arr_ncols P \<and>
           predict (clf_lib L) m Xte = Inr preds \<and>
           predict (clf_lib L) m Xtr = Inr ptr \<and>
           np_eq preds yte = Inr hte \<and>
           np_eq ptr ytr = Inr htr \<and>
           fst (main_result L fs arg w) =
             Inr [(''test_probabilities'', JList (map JFloat (map (\<lambda>r. r ! 1) (arr_rows P)))),
                  (''test_predictions'', JList (map JLabel preds)),
                  (''test_accuracy'', JFloat (np_mean hte)),
                  (''train_accuracy'', JFloat (np_mean htr))] \<and>
           stdout w' = stdout w @
             ''{"test_probabilities": ['' @
                join_str '', '' (map (dumps_float (float_repr L)) (map (\<lambda>r. r ! 1) (arr_rows P))) @
             ''], "test_predictions": ['' @ join_str '', '' (map (label_repr L) preds) @
             ''], "test_accuracy": '' @ dumps_float (float_repr L) (np_mean hte) @
             '', "train_accuracy": '' @ dumps_float (float_repr L) (np_mean htr) @ ''}'' @
             [CHR 0x0A]\<close>
proof -
  from main_printed [OF assms] obtain result where
    mr: "main_result L fs arg w = (Inr result, w'\<lparr>stdout := stdout w\<rparr>)" and
    out: "stdout w' = stdout w @ json_dumps (float_repr L) (label_repr L) (JDict result) @
            [CHR 0x0A]"
    by blast
  from main_result_Inr [OF mr] obtain Xtr ytr Xte yte m P preds ptr hte htr where
    run: "load_splits L fs arg = Inr (Xtr, ytr, Xte, yte)"
      "fit (clf_lib L) parity_params (entropy w) Xtr ytr = Inr m"
      "predict_proba (clf_lib L) m Xte = Inr P" "1 < arr_ncols P"
      "predict (clf_lib L) m Xte = Inr preds" "predict (clf_lib L) m Xtr = Inr ptr"
      "np_eq preds yte = Inr hte" "np_eq ptr ytr = Inr htr" and
    result: "result = [(''test_probabilities'', JList (map (\<lambda>r. JFloat (r ! 1)) (arr_rows P))),
                       (''test_predictions'', JList (map JLabel preds)),
                       (''test_accuracy'', JFloat (np_mean hte)),
                       (''train_accuracy'', JFloat (np_mean htr))]"
    by blast
  have result': "result = [(''test_probabilities'',
                            JList (map JFloat (map (\<lambda>r. r ! 1) (arr_rows P)))),
                           (''test_predictions'', JList (map JLabel preds)),
                           (''test_accuracy'', JFloat (np_mean hte)),
                           (''train_accuracy'', JFloat (np_mean htr))]"
    by (simp add: result comp_def)
  have 1: "fst (main_result L fs arg w) =
             Inr [(''test_probabilities'', JList (map JFloat (map (\<lambda>r. r ! 1) (arr_rows P)))),
                  (''test_predictions'', JList (map JLabel preds)),
                  (''test_accuracy'', JFloat (np_mean hte)),
                  (''train_accuracy'', JFloat (np_mean htr))]"
    by (simp add: mr result')
  have 2: \<open>stdout w' = stdout w @
             ''{"test_probabilities": ['' @
                join_str '', '' (map (dumps_float (float_repr L)) (map (\<lambda>r. r ! 1) (arr_rows P))) @
             ''], "test_predictions": ['' @ join_str '', '' (map (label_repr L) preds) @
             ''], "test_accuracy": '' @ dumps_float (float_repr L) (np_mean hte) @
             '', "train_accuracy": '' @ dumps_float (float_repr L) (np_mean htr) @ ''}'' @
             [CHR 0x0A]\<close>
    unfolding out result' dumps_line by simp
  from run 1 2 show ?thesis by blast
qed

text \<open>
  C5. What a run prints as \<open>test_probabilities\<close> is column 1 of the array that
  \<open>predict_proba\<close> of the fitted classifier returns for the test features (an array
  of two columns at least), entry by entry and in the order of the rows, each entry
  written as \<open>json.dumps\<close> writes a float.
\<close>

theorem test_probabilities_are_column_one:
  assumes "main L fs arg w = (Inr u, w')"
  shows \<open>\<exists>X_train y_train X_test y_test m P preds acc_test acc_train.
           load_splits L fs arg = Inr (X_train, y_train, X_test, y_test) \<and>
           fit (clf_lib L) parity_params (entropy w) X_train y_train = Inr m \<and>
           predict_proba (clf_lib L) m X_test = Inr P \<and>
           1 < arr_ncols P \<and>
           stdout w' = stdout w @
             ''{"test_probabilities": ['' @
                join_str '', '' (map (\<lambda>row. dumps_float (float_repr L) (row ! 1)) (arr_rows P)) @
             ''], "test_predictions": ['' @ join_str '', '' (map (label_repr L) preds) @
             ''], "test_accuracy": '' @ dumps_float (float_repr L) acc_test @
             '', "train_accuracy": '' @ dumps_float (float_repr L) acc_train @ ''}'' @
             [CHR 0x0A]\<close>
proof -
  from main_line [OF assms] obtain Xtr ytr Xte yte m P preds hte htr where
    run: "load_splits L fs arg = Inr (Xtr, ytr, Xte, yte)"
      "fit (clf_lib L) parity_params (entropy w) Xtr ytr = Inr m"
      "predict_proba (clf_lib L) m Xte = Inr P" "1 < arr_ncols P" and
    out: \<open>stdout w' = stdout w @
             ''{"test_probabilities": ['' @
                join_str '', '' (map (dumps_float (float_repr L)) (map (\<lambda>r. r ! 1) (arr_rows P))) @
             ''], "test_predictions": ['' @ join_str '', '' (map (label_repr L) preds) @
             ''], "test_accuracy": '' @ dumps_float (float_repr L) (np_mean hte) @
             '', "train_accuracy": '' @ dumps_float (float_repr L) (np_mean htr) @ ''}'' @
             [CHR 0x0A]\<close>
    by blast
  have \<open>stdout w' = stdout w @
             ''{"test_probabilities": ['' @
                join_str '', '' (map (\<lambda>row. dumps_float (float_repr L) (row ! 1)) (arr_rows P)) @
             ''], "test_predictions": ['' @ join_str '', '' (map (label_repr L) preds) @
             ''], "test_accuracy": '' @ dumps_float (float_repr L) (np_mean hte) @
             '', "train_accuracy": '' @ dumps_float (float_repr L) (np_mean htr) @ ''}'' @
             [CHR 0x0A]\<close>
    using out by (simp add: comp_def)
  with run show ?thesis by blast
qed

theorem test_probabilities_are_column_one_witness:
  \<open>fst (main (example_libs True) fs_ok None w0) = Inr () \<and>
   (\<exists>X_train y_train X_test y_test m P preds acc_test acc_train.
      load_splits (example_libs True) fs_ok None = Inr (X_train, y_train, X_test, y_test) \<and>
      fit (clf_lib (example_libs True)) parity_params (entropy w0) X_train y_train = Inr m \<and>
      predict_proba (clf_lib (example_libs True)) m X_test = Inr P \<and>
      1 < arr_ncols P \<and>
      stdout (snd (main (example_libs True) fs_ok None w0)) = stdout w0 @
        ''{"test_probabilities": ['' @
           join_str '', ''
             (map (\<lambda>row. dumps_float (float_repr (example_libs True)) (row ! 1)) (arr_rows P)) @
        ''], "test_predictions": ['' @
           join_str '', '' (map (label_repr (example_libs True)) preds) @
        ''], "test_accuracy": '' @ dumps_float (float_repr (example_libs True)) acc_test @
        '', "train_accuracy": '' @ dumps_float (float_repr (example_libs True)) acc_train @
        ''}'' @ [CHR 0x0A]) \<and>
   stdout (snd (main (example_libs True) fs_ok None w0)) =
     ''{"test_probabilities": [0.0, 0.0], "test_predictions": [0, 0], "test_accuracy": 0.5, "train_accuracy": 1.0}''
       @ [CHR 0x0A]\<close>
proof -
  have a: "main (example_libs True) fs_ok None w0 =
             (Inr (), snd (main (example_libs True) fs_ok None w0))"
    using run_ok_succeeds main_split [of "example_libs True" fs_ok None w0] by simp
  have c: \<open>stdout (snd (main (example_libs True) fs_ok None w0)) =
     ''{"test_probabilities": [0.0, 0.0], "test_predictions": [0, 0], "test_accuracy": 0.5, "train_accuracy": 1.0}''
       @ [CHR 0x0A]\<close>
    by code_simp
  from test_probabilities_are_column_one [OF a] run_ok_succeeds c
  show ?thesis by blast
qed

text \<open>
  C2. With a classifier that answers with one entry per row, a run that prints has
  printed one object of exactly the four keys \<open>test_probabilities\<close>,
  \<open>test_predictions\<close>, \<open>test_accuracy\<close>, \<open>train_accuracy\<close>, the dump of the
  dictionary \<open>result\<close>, in which the first two are lists with one entry for each row
  of the test file; the number of classes and the number of rows play no part.
\<close>

theorem printed_keys_and_lengths:
  assumes "one_per_row (clf_lib L)"
      and "main L fs arg w = (Inr u, w')"
  shows \<open>\<exists>test_df probs preds acc_test acc_train.
           read_csv (parse_csv L) fs (test_path arg) = Inr test_df \<and>
           length probs = length (df_rows test_df) \<and>
           length preds = length (df_rows test_df) \<and>
           fst (main_result L fs arg w) =
             Inr [(''test_probabilities'', JList (map JFloat probs)),
                  (''test_predictions'', JList (map JLabel preds)),
                  (''test_accuracy'', JFloat acc_test),
                  (''train_accuracy'', JFloat acc_train)] \<and>
           stdout w' = stdout w @
             ''{"test_probabilities": ['' @
                join_str '', '' (map (dumps_float (float_repr L)) probs) @
             ''], "test_predictions": ['' @ join_str '', '' (map (label_repr L) preds) @
             ''], "test_accuracy": '' @ dumps_float (float_repr L) acc_test @
             '', "train_accuracy": '' @ dumps_float (float_repr L) acc_train @ ''}'' @
             [CHR 0x0A]\<close>
proof -
  from main_line [OF assms(2)] obtain Xtr ytr Xte yte m P preds hte htr where
    loaded: "load_splits L fs arg = Inr (Xtr, ytr, Xte, yte)" and
    P: "predict_proba (clf_lib L) m Xte = Inr P" and
    preds: "predict (clf_lib L) m Xte = Inr preds" and
    result: "fst (main_result L fs arg w) =
             Inr [(''test_probabilities'', JList (map JFloat (map (\<lambda>r. r ! 1) (arr_rows P)))),
                  (''test_predictions'', JList (map JLabel preds)),
                  (''test_accuracy'', JFloat (np_mean hte)),
                  (''train_accuracy'', JFloat (np_mean htr))]" and
    out: \<open>stdout w' = stdout w @
             ''{"test_probabilities": ['' @
                join_str '', '' (map (dumps_float (float_repr L)) (map (\<lambda>r. r ! 1) (arr_rows P))) @
             ''], "test_predictions": ['' @ join_str '', '' (map (label_repr L) preds) @
             ''], "test_accuracy": '' @ dumps_float (float_repr L) (np_mean hte) @
             '', "train_accuracy": '' @ dumps_float (float_repr L) (np_mean htr) @ ''}'' @
             [CHR 0x0A]\<close>
    by blast
  from load_splits_rows [OF loaded] obtain test_df where
    test_df: "read_csv (parse_csv L) fs (test_path arg) = Inr test_df" and
    rows: "length (arr_rows Xte) = length (df_rows test_df)"
    by blast
  from assms(1) P preds have len: "length (arr_rows P) = length (arr_rows Xte)"
    "length preds = length (arr_rows Xte)"
    by (auto simp: one_per_row_def)
  have "length (map (\<lambda>r. r ! 1) (arr_rows P)) = length (df_rows test_df)"
       "length preds = length (df_rows test_df)"
    using len rows by simp_all
  with test_df result out show ?thesis by blast
qed

theorem printed_keys_and_lengths_witness:
  \<open>one_per_row (clf_lib (example_libs True)) \<and>
   fst (main (example_libs True) fs_ok None w0) = Inr () \<and>
   (\<exists>test_df probs preds acc_test acc_train.
      read_csv (parse_csv (example_libs True)) fs_ok (test_path None) = Inr test_df \<and>
      length probs = length (df_rows test_df) \<and>
      length preds = length (df_rows test_df) \<and>
      fst (main_result (example_libs True) fs_ok None w0) =
        Inr [(''test_probabilities'', JList (map JFloat probs)),
             (''test_predictions'', JList (map JLabel preds)),
             (''test_accuracy'', JFloat acc_test),
             (''train_accuracy'', JFloat acc_train)] \<and>
      stdout (snd (main (example_libs True) fs_ok None w0)) = stdout w0 @
        ''{"test_probabilities": ['' @
           join_str '', '' (map (dumps_float (float_repr (example_libs True))) probs) @
        ''], "test_predictions": ['' @
           join_str '', '' (map (label_repr (example_libs True)) preds) @
        ''], "test_accuracy": '' @ dumps_float (float_repr (example_libs True)) acc_test @
        '', "train_accuracy": '' @ dumps_float (float_repr (example_libs True)) acc_train @
        ''}'' @ [CHR 0x0A]) \<and>
   map_option (\<lambda>df. length (df_rows df)) (csv_reader test_csv) = Some 2 \<and>
   map_option (\<lambda>df. remdups (map last (df_rows df))) (csv_reader train_csv) =
     Some [IntCell 0, IntCell 1, IntCell 2] \<and>
   stdout (snd (main (example_libs True) fs_ok None w0)) =
     ''{"test_probabilities": [0.0, 0.0], "test_predictions": [0, 0], "test_accuracy": 0.5, "train_accuracy": 1.0}''
       @ [CHR 0x0A]\<close>
proof -
  have a: "main (example_libs True) fs_ok None w0 =
             (Inr (), snd (main (example_libs True) fs_ok None w0))"
    using run_ok_succeeds main_split [of "example_libs True" fs_ok None w0] by simp
  have b: "map_option (\<lambda>df. length (df_rows df)) (csv_reader test_csv) = Some 2"
    by code_simp
  have c: "map_option (\<lambda>df. remdups (map last (df_rows df))) (csv_reader train_csv) =
             Some [IntCell 0, IntCell 1, IntCell 2]"
    by code_simp
  have d: \<open>stdout (snd (main (example_libs True) fs_ok None w0)) =
     ''{"test_probabilities": [0.0, 0.0], "test_predictions": [0, 0], "test_accuracy": 0.5, "train_accuracy": 1.0}''
       @ [CHR 0x0A]\<close>
    by code_simp
  from printed_keys_and_lengths [OF memo_one_per_row a] memo_one_per_row run_ok_succeeds b c d
  show ?thesis by blast
qed

text \<open>
  C10. When the two \<open>repr\<close> functions never produce a line feed, what a successful
  run adds to standard output is one line: the four keys in the order
  \<open>test_probabilities\<close>, \<open>test_predictions\<close>, \<open>test_accuracy\<close>,
  \<open>train_accuracy\<close>, each followed by its value, between braces, and one line feed
  after the closing brace.
\<close>

theorem output_is_one_line:
  assumes "\<forall>q. newline_free (float_repr L q)"
      and "\<forall>v. newline_free (label_repr L v)"
      and "main L fs arg w = (Inr u, w')"
  shows \<open>\<exists>probs preds acc_test acc_train.
           stdout w' = stdout w @
             ''{"test_probabilities": '' @ probs @
             '', "test_predictions": '' @ preds @
             '', "test_accuracy": '' @ acc_test @
             '', "train_accuracy": '' @ acc_train @ ''}'' @ [CHR 0x0A] \<and>
           newline_free probs \<and> newline_free preds \<and>
           newline_free acc_test \<and> newline_free acc_train\<close>
proof -
  let ?dumps = "json_dumps (float_repr L) (label_repr L)"
  from main_printed [OF assms(3)] obtain result where
    mr: "main_result L fs arg w = (Inr result, w'\<lparr>stdout := stdout w\<rparr>)" and
    out: "stdout w' = stdout w @ ?dumps (JDict result) @ [CHR 0x0A]"
    by blast
  from main_result_Inr [OF mr] obtain P :: "pyfloat ndarray2" and preds hte htr where
    result: "result = [(''test_probabilities'', JList (map (\<lambda>r. JFloat (r ! 1)) (arr_rows P))),
                       (''test_predictions'', JList (map JLabel preds)),
                       (''test_accuracy'', JFloat (np_mean hte)),
                       (''train_accuracy'', JFloat (np_mean htr))]"
    by blast
  have 1: "newline_free (?dumps (JList (map (\<lambda>r. JFloat (r ! 1)) (arr_rows P))))"
    using assms(1) by (intro dumps_list_newline_free) (simp add: list_all_iff dumps_float_newline_free)
  have 2: "newline_free (?dumps (JList (map JLabel preds)))"
    using assms(2) by (intro dumps_list_newline_free) (simp add: list_all_iff)
  have 3: "newline_free (?dumps (JFloat (np_mean hte)))" "newline_free (?dumps (JFloat (np_mean htr)))"
    using assms(1) by (simp_all add: dumps_float_newline_free)
  have \<open>stdout w' = stdout w @
             ''{"test_probabilities": '' @ ?dumps (JList (map (\<lambda>r. JFloat (r ! 1)) (arr_rows P))) @
             '', "test_predictions": '' @ ?dumps (JList (map JLabel preds)) @
             '', "test_accuracy": '' @ ?dumps (JFloat (np_mean hte)) @
             '', "train_accuracy": '' @ ?dumps (JFloat (np_mean htr)) @ ''}'' @ [CHR 0x0A]\<close>
    unfolding out result dumps_result by simp
  with 1 2 3 show ?thesis by blast
qed

theorem output_is_one_line_witness:
  \<open>(\<forall>q. newline_free (float_repr (example_libs True) q)) \<and>
   (\<forall>v. newline_free (label_repr (example_libs True) v)) \<and>
   fst (main (example_libs True) fs_ok None w0) = Inr () \<and>
   (\<exists>probs preds acc_test acc_train.
      stdout (snd (main (example_libs True) fs_ok None w0)) = stdout w0 @
        ''{"test_probabilities": '' @ probs @
        '', "test_predictions": '' @ preds @
        '', "test_accuracy": '' @ acc_test @
        '', "train_accuracy": '' @ acc_train @ ''}'' @ [CHR 0x0A] \<and>
      newline_free probs \<and> newline_free preds \<and>
      newline_free acc_test \<and> newline_free acc_train) \<and>
   stdout (snd (main (example_libs True) fs_ok None w0)) =
     ''{"test_probabilities": [0.0, 0.0], "test_predictions": [0, 0], "test_accuracy": 0.5, "train_accuracy": 1.0}''
       @ [CHR 0x0A]\<close>
proof -
  have a: "main (example_libs True) fs_ok None w0 = (Inr (), snd (main (example_libs True) fs_ok None w0))"
    using run_ok_succeeds main_split [of "example_libs True" fs_ok None w0] by simp
  have c: \<open>stdout (snd (main (example_libs True) fs_ok None w0)) =
     ''{"test_probabilities": [0.0, 0.0], "test_predictions": [0, 0], "test_accuracy": 0.5, "train_accuracy": 1.0}''
       @ [CHR 0x0A]\<close>
    by code_simp
  from output_is_one_line [OF example_reprs_newline_free a]
    example_reprs_newline_free [of True] run_ok_succeeds c
  show ?thesis by blast
qed

subsection \<open>Accuracy\<close>



lemma np_mean_unit:
  assumes "bs \<noteq> []"
  shows "in_unit_interval (np_mean bs)"
proof -
  let ?q = "(of_nat (length (filter (\<lambda>b. b) bs)) :: rat) / of_nat (length bs)"
  have "length (filter (\<lambda>b. b) bs) \<le> length bs" by simp
  then have "(of_nat (length (filter (\<lambda>b. b) bs)) :: rat) \<le> of_nat (length bs)"
    by (simp only: of_nat_le_iff)
  moreover have "(0::rat) < of_nat (length bs)" using assms by simp
  ultimately have "0 \<le> ?q" "?q \<le> 1" by (simp_all add: divide_le_eq_1)
  from float64_round_unit [OF this] assms show ?thesis by (simp add: np_mean_def)
qed

lemma np_eq_length:
  assumes "np_eq ps ys = Inr hits" and "length ps = length ys"
  shows "length hits = length ys"
  using assms by (auto simp: np_eq_def)

lemma np_eq_no_labels:
  assumes "np_eq ps [] = Inr hits"
  shows "hits = []"
  using assms by (auto simp: np_eq_def split: if_splits)

lemma load_splits_aligned:
  assumes "load_splits L fs arg = Inr (Xtr, ytr, Xte, yte)"
  shows "length ytr = length (arr_rows Xtr)" "length yte = length (arr_rows Xte)"
  using load_splits_rows [OF assms] by auto





lemma accuracies_unit:
  assumes "one_per_row (clf_lib L)"
      and "refuses_empty (clf_lib L)"
      and "main_result L fs arg w = (Inr result, w')"
  shows "\<exists>probs preds acc_test acc_train.
           result = [(''test_probabilities'', probs), (''test_predictions'', preds),
                     (''test_accuracy'', JFloat acc_test), (''train_accuracy'', JFloat acc_train)] \<and>
           in_unit_interval acc_test \<and> in_unit_interval acc_train"
proof -
  from main_result_Inr [OF assms(3)]
  obtain Xtr ytr Xte yte m and P :: "pyfloat ndarray2" and preds ptr hte htr where
    loaded: "load_splits L fs arg = Inr (Xtr, ytr, Xte, yte)" and
    preds: "predict (clf_lib L) m Xte = Inr preds" and
    ptr: "predict (clf_lib L) m Xtr = Inr ptr" and
    hte: "np_eq preds yte = Inr hte" and
    htr: "np_eq ptr ytr = Inr htr" and
    result: "result = [(''test_probabilities'', JList (map (\<lambda>r. JFloat (r ! 1)) (arr_rows P))),
                       (''test_predictions'', JList (map JLabel preds)),
                       (''test_accuracy'', JFloat (np_mean hte)),
                       (''train_accuracy'', JFloat (np_mean htr))]"
    by blast
  from assms(1) preds ptr load_splits_aligned [OF loaded]
  have len: "length preds = length yte" "length ptr = length ytr"
    by (auto simp: one_per_row_def)
  have refuses: "\<exists>x. predict (clf_lib L) m X = Inl x" if "arr_rows X = []" for X
    using assms(2) that by (simp add: refuses_empty_def)
  have "arr_rows Xte \<noteq> []" using refuses [of Xte] preds by auto
  moreover have "arr_rows Xtr \<noteq> []" using refuses [of Xtr] ptr by auto
  ultimately have "yte \<noteq> []" "ytr \<noteq> []"
    using load_splits_aligned [OF loaded] by auto
  with np_eq_length [OF hte len(1)] np_eq_length [OF htr len(2)]
  have "hte \<noteq> []" "htr \<noteq> []" by auto
  then have "in_unit_interval (np_mean hte)" "in_unit_interval (np_mean htr)"
    by (simp_all add: np_mean_unit)
  with result show ?thesis by blast
qed

text \<open>
  C7. With a classifier that answers with one entry per row and refuses a matrix of
  no rows: what a run prints, if it prints, is the dump of a dictionary in which
  \<open>test_accuracy\<close> and \<open>train_accuracy\<close> are doubles between 0.0 and 1.0.
\<close>

theorem accuracies_in_unit_interval:
  assumes "one_per_row (clf_lib L)"
      and "refuses_empty (clf_lib L)"
      and "main L fs arg w = (Inr u, w')"
  shows "\<exists>probs preds acc_test acc_train.
           stdout w' = stdout w @
             json_dumps (float_repr L) (label_repr L)
               (JDict [(''test_probabilities'', probs),
                       (''test_predictions'', preds),
                       (''test_accuracy'', JFloat acc_test),
                       (''train_accuracy'', JFloat acc_train)]) @ [CHR 0x0A] \<and>
           in_unit_interval acc_test \<and> in_unit_interval acc_train"
proof -
  from main_printed [OF assms(3)] obtain result where
    mr: "main_result L fs arg w = (Inr result, w'\<lparr>stdout := stdout w\<rparr>)" and
    out: "stdout w' = stdout w @ json_dumps (float_repr L) (label_repr L) (JDict result) @ [CHR 0x0A]"
    by blast
  from accuracies_unit [OF assms(1,2) mr] out show ?thesis by blast
qed

theorem accuracies_in_unit_interval_witness:
  \<open>one_per_row (clf_lib (example_libs True)) \<and>
   refuses_empty (clf_lib (example_libs True)) \<and>
   fst (main (example_libs True) fs_ok None w0) = Inr () \<and>
   (\<exists>probs preds acc_test acc_train.
      stdout (snd (main (example_libs True) fs_ok None w0)) = stdout w0 @
        json_dumps (float_repr (example_libs True)) (label_repr (example_libs True))
          (JDict [(''test_probabilities'', probs),
                  (''test_predictions'', preds),
                  (''test_accuracy'', JFloat acc_test),
                  (''train_accuracy'', JFloat acc_train)]) @ [CHR 0x0A] \<and>
      in_unit_interval acc_test \<and> in_unit_interval acc_train) \<and>
   stdout (snd (main (example_libs True) fs_ok None w0)) =
     ''{"test_probabilities": [0.0, 0.0], "test_predictions": [0, 0], "test_accuracy": 0.5, "train_accuracy": 1.0}''
       @ [CHR 0x0A]\<close>
proof -
  have a: "main (example_libs True) fs_ok None w0 = (Inr (), snd (main (example_libs True) fs_ok None w0))"
    using run_ok_succeeds main_split [of "example_libs True" fs_ok None w0] by simp
  have c: \<open>stdout (snd (main (example_libs True) fs_ok None w0)) =
     ''{"test_probabilities": [0.0, 0.0], "test_predictions": [0, 0], "test_accuracy": 0.5, "train_accuracy": 1.0}''
       @ [CHR 0x0A]\<close>
    by code_simp
  from accuracies_in_unit_interval [OF memo_one_per_row memo_refuses_empty a]
    memo_one_per_row memo_refuses_empty run_ok_succeeds c
  show ?thesis by blast
qed

subsection \<open>An empty split\<close>

lemma score_proba_refused:
  assumes "predict_proba (clf_lib L) m Xte = Inl x"
  shows "score L m Xtr ytr Xte yte w =
           (Inl (OracleError x), w\<lparr>oracle_log := oracle_log w @ [PredictProba Xte]\<rparr>)"
  using assms by (simp add: score_def bnd_def oracle_call_def)

lemma main_fit_refused:
  assumes "load_splits L fs arg = Inr (Xtr, ytr, Xte, yte)"
      and "fit (clf_lib L) parity_params (entropy w) Xtr ytr = Inl x"
  shows "main L fs arg w =
           (Inl (OracleError x),
            w\<lparr>oracle_log := oracle_log w @ [Construct parity_params, Fit Xtr ytr]\<rparr>)"
  using assms(2) by (simp add: main_Inl main_result_loaded [OF assms(1)])

lemma main_proba_refused:
  assumes "load_splits L fs arg = Inr (Xtr, ytr, Xte, yte)"
      and "fit (clf_lib L) parity_params (entropy w) Xtr ytr = Inr m"
      and "predict_proba (clf_lib L) m Xte = Inl x"
  shows "main L fs arg w =
           (Inl (OracleError x),
            w\<lparr>oracle_log := oracle_log w @
                 [Construct parity_params, Fit Xtr ytr, PredictProba Xte]\<rparr>)"
  using assms(2,3)
  by (simp add: main_Inl main_result_loaded [OF assms(1)] score_proba_refused)

text \<open>
  C6, as amended. The script has no check for a split of no rows and raises no error
  of its own for it: the classifier is constructed and fitted as on any run. With a
  classifier that refuses a matrix of no rows, as sklearn's does, the run ends with
  the exception of the classifier, passed on as it is, and has printed nothing, so
  that no NaN is reported. With an empty train split it is the exception that \<open>fit\<close>
  raises, and \<open>fit\<close> is the last call. With an empty test split it is the one that
  \<open>predict_proba\<close> raises on the test matrix, the first call after \<open>fit\<close>, unless
  \<open>fit\<close> has raised already.
\<close>

theorem empty_split_outcome:
  assumes "load_splits L fs arg = Inr (X_train, y_train, X_test, y_test)"
      and "refuses_empty (clf_lib L)"
  shows "(arr_rows X_train = [] \<longrightarrow>
            (\<exists>x. fit (clf_lib L) parity_params (entropy w) X_train y_train = Inl x \<and>
                 main L fs arg w =
                   (Inl (OracleError x),
                    w\<lparr>oracle_log := oracle_log w @
                         [Construct parity_params, Fit X_train y_train]\<rparr>))) \<and>
         (arr_rows X_test = [] \<longrightarrow>
            (\<exists>x. (fit (clf_lib L) parity_params (entropy w) X_train y_train = Inl x \<and>
                  main L fs arg w =
                    (Inl (OracleError x),
                     w\<lparr>oracle_log := oracle_log w @
                          [Construct parity_params, Fit X_train y_train]\<rparr>)) \<or>
                 (\<exists>m. fit (clf_lib L) parity_params (entropy w) X_train y_train = Inr m \<and>
                      predict_proba (clf_lib L) m X_test = Inl x \<and>
                      main L fs arg w =
                        (Inl (OracleError x),
                         w\<lparr>oracle_log := oracle_log w @
                              [Construct parity_params, Fit X_train y_train,
                               PredictProba X_test]\<rparr>))))"
proof (intro conjI impI)
  assume "arr_rows X_train = []"
  with assms(2) obtain x where
    x: "fit (clf_lib L) parity_params (entropy w) X_train y_train = Inl x"
    unfolding refuses_empty_def by blast
  from x main_fit_refused [OF assms(1) x]
  show "\<exists>x. fit (clf_lib L) parity_params (entropy w) X_train y_train = Inl x \<and>
            main L fs arg w =
              (Inl (OracleError x),
               w\<lparr>oracle_log := oracle_log w @ [Construct parity_params, Fit X_train y_train]\<rparr>)"
    by blast
next
  assume empty: "arr_rows X_test = []"
  show "\<exists>x. (fit (clf_lib L) parity_params (entropy w) X_train y_train = Inl x \<and>
             main L fs arg w =
               (Inl (OracleError x),
                w\<lparr>oracle_log := oracle_log w @
                     [Construct parity_params, Fit X_train y_train]\<rparr>)) \<or>
            (\<exists>m. fit (clf_lib L) parity_params (entropy w) X_train y_train = Inr m \<and>
                 predict_proba (clf_lib L) m X_test = Inl x \<and>
                 main L fs arg w =
                   (Inl (OracleError x),
                    w\<lparr>oracle_log := oracle_log w @
                         [Construct parity_params, Fit X_train y_train,
                          PredictProba X_test]\<rparr>))"
  proof (cases "fit (clf_lib L) parity_params (entropy w) X_train y_train")
    case (Inl x)
    from Inl main_fit_refused [OF assms(1) Inl] show ?thesis by blast
  next
    case (Inr m)
    from assms(2) empty obtain x where x: "predict_proba (clf_lib L) m X_test = Inl x"
      unfolding refuses_empty_def by blast
    from Inr x main_proba_refused [OF assms(1) Inr x] show ?thesis by blast
  qed
qed

lemma load_empty_test:
  "load_splits (example_libs True) fs_empty_test None =
     Inr (\<lparr>arr_ncols = 3, arr_rows = [[IntCell 1, IntCell 2, IntCell 3],
                                      [IntCell 4, IntCell 5, IntCell 6],
                                      [IntCell 7, IntCell 8, IntCell 9]]\<rparr>,
          [IntCell 0, IntCell 1, IntCell 2], \<lparr>arr_ncols = 3, arr_rows = []\<rparr>, [])"
  by code_simp

lemma load_empty_train:
  "load_splits (example_libs True) fs_empty_train None =
     Inr (\<lparr>arr_ncols = 3, arr_rows = []\<rparr>, [],
          \<lparr>arr_ncols = 3, arr_rows = [[IntCell 1, IntCell 2, IntCell 3],
                                      [IntCell 9, IntCell 9, IntCell 9]]\<rparr>,
          [IntCell 0, IntCell 1])"
  by code_simp

theorem empty_split_outcome_witness:
  "load_splits (example_libs True) fs_empty_train None =
     Inr (\<lparr>arr_ncols = 3, arr_rows = []\<rparr>, [],
          \<lparr>arr_ncols = 3, arr_rows = [[IntCell 1, IntCell 2, IntCell 3],
                                      [IntCell 9, IntCell 9, IntCell 9]]\<rparr>,
          [IntCell 0, IntCell 1]) \<and>
   load_splits (example_libs True) fs_empty_test None =
     Inr (\<lparr>arr_ncols = 3, arr_rows = [[IntCell 1, IntCell 2, IntCell 3],
                                      [IntCell 4, IntCell 5, IntCell 6],
                                      [IntCell 7, IntCell 8, IntCell 9]]\<rparr>,
          [IntCell 0, IntCell 1, IntCell 2], \<lparr>arr_ncols = 3, arr_rows = []\<rparr>, []) \<and>
   refuses_empty (clf_lib (example_libs True)) \<and>
   fit (clf_lib (example_libs True)) parity_params (entropy w0)
     \<lparr>arr_ncols = 3, arr_rows = []\<rparr> [] = Inl ''ValueError: 0 samples'' \<and>
   main (example_libs True) fs_empty_train None w0 =
     (Inl (OracleError ''ValueError: 0 samples''),
      w0\<lparr>oracle_log := oracle_log w0 @
           [Construct parity_params, Fit \<lparr>arr_ncols = 3, arr_rows = []\<rparr> []]\<rparr>) \<and>
   (\<exists>m. fit (clf_lib (example_libs True)) parity_params (entropy w0)
           \<lparr>arr_ncols = 3, arr_rows = [[IntCell 1, IntCell 2, IntCell 3],
                                       [IntCell 4, IntCell 5, IntCell 6],
                                       [IntCell 7, IntCell 8, IntCell 9]]\<rparr>
           [IntCell 0, IntCell 1, IntCell 2] = Inr m \<and>
        predict_proba (clf_lib (example_libs True)) m \<lparr>arr_ncols = 3, arr_rows = []\<rparr> =
          Inl ''ValueError: 0 samples'' \<and>
        main (example_libs True) fs_empty_test None w0 =
          (Inl (OracleError ''ValueError: 0 samples''),
           w0\<lparr>oracle_log := oracle_log w0 @
                [Construct parity_params,
                 Fit \<lparr>arr_ncols = 3, arr_rows = [[IntCell 1, IntCell 2, IntCell 3],
                                                 [IntCell 4, IntCell 5, IntCell 6],
                                                 [IntCell 7, IntCell 8, IntCell 9]]\<rparr>
                     [IntCell 0, IntCell 1, IntCell 2],
                 PredictProba \<lparr>arr_ncols = 3, arr_rows = []\<rparr>]\<rparr>))"
proof -
  let ?X = "\<lparr>arr_ncols = 3, arr_rows = [[IntCell 1, IntCell 2, IntCell 3],
                                        [IntCell 4, IntCell 5, IntCell 6],
                                        [IntCell 7, IntCell 8, IntCell 9]]\<rparr>"
  let ?E = "\<lparr>arr_ncols = 3, arr_rows = []\<rparr> :: cell ndarray2"
  have f: "fit (clf_lib (example_libs True)) parity_params (entropy w0) ?E [] =
             Inl ''ValueError: 0 samples''"
    by code_simp
  have p: "predict_proba (clf_lib (example_libs True)) m ?E = Inl ''ValueError: 0 samples''"
    for m
    by (simp add: example_libs_def memo_classifier_def memo_predict_proba_def)
  have e: "arr_rows ?E = []" by simp
  from empty_split_outcome [OF load_empty_train memo_refuses_empty, of w0] e f
  have 1: "main (example_libs True) fs_empty_train None w0 =
             (Inl (OracleError ''ValueError: 0 samples''),
              w0\<lparr>oracle_log := oracle_log w0 @ [Construct parity_params, Fit ?E []]\<rparr>)"
    by auto
  from empty_split_outcome [OF load_empty_test memo_refuses_empty, of w0] e fit_ok p
  have 2: "\<exists>m. fit (clf_lib (example_libs True)) parity_params (entropy w0) ?X
                  [IntCell 0, IntCell 1, IntCell 2] = Inr m \<and>
                predict_proba (clf_lib (example_libs True)) m ?E =
                  Inl ''ValueError: 0 samples'' \<and>
                main (example_libs True) fs_empty_test None w0 =
                  (Inl (OracleError ''ValueError: 0 samples''),
                   w0\<lparr>oracle_log := oracle_log w0 @
                        [Construct parity_params, Fit ?X [IntCell 0, IntCell 1, IntCell 2],
                         PredictProba ?E]\<rparr>)"
    by auto
  from load_empty_train load_empty_test memo_refuses_empty f 1 2 show ?thesis by blast
qed

text \<open>
  C6 as it was stated fails on a test file of a header and no row: the run does end
  with an exception and prints nothing, but the classifier has been constructed and
  fitted by then, and the exception is the one that \<open>predict_proba\<close> raises on the
  empty test matrix, which the script passes on: no empty-split error.
\<close>

theorem empty_test_split_unchecked:
  "main (example_libs True) fs_empty_test None w0 =
     (Inl (OracleError ''ValueError: 0 samples''),
      \<lparr>oracle_log =
         [Construct parity_params,
          Fit \<lparr>arr_ncols = 3, arr_rows = [[IntCell 1, IntCell 2, IntCell 3],
                                          [IntCell 4, IntCell 5, IntCell 6],
                                          [IntCell 7, IntCell 8, IntCell 9]]\<rparr>
              [IntCell 0, IntCell 1, IntCell 2],
          PredictProba \<lparr>arr_ncols = 3, arr_rows = []\<rparr>],
       stdout = [], entropy = 0\<rparr>) \<and>
   predict_proba (clf_lib (example_libs True))
     \<lparr>mm_ncols = 3, mm_classes = [IntCell 0, IntCell 1, IntCell 2],
      mm_table = [([IntCell 1, IntCell 2, IntCell 3], IntCell 0),
                  ([IntCell 4, IntCell 5, IntCell 6], IntCell 1),
                  ([IntCell 7, IntCell 8, IntCell 9], IntCell 2)],
      mm_default = IntCell 0\<rparr>
     \<lparr>arr_ncols = 3, arr_rows = []\<rparr> = Inl ''ValueError: 0 samples'' \<and>
   failure_class (OracleError ''ValueError: 0 samples'') = Some FitFailure"
  by code_simp

text \<open>
  What that refusal is worth: nothing in the script itself stands between a split of
  no rows and NaN. A run that reaches the dictionary with such a split reports NaN as
  its accuracy, as the run with the classifier that accepts the empty matrix does.
\<close>

lemma empty_split_nan:
  assumes loaded: "load_splits L fs arg = Inr (Xtr, ytr, Xte, yte)"
      and reached: "main_result L fs arg w = (Inr result, w')"
  shows "(arr_rows Xte = [] \<longrightarrow> map_of result ''test_accuracy'' = Some (JFloat NaN)) \<and>
         (arr_rows Xtr = [] \<longrightarrow> map_of result ''train_accuracy'' = Some (JFloat NaN))"
proof -
  from main_result_Inr [OF reached] loaded obtain preds ptr hte htr where
    hte: "np_eq preds yte = Inr hte" and
    htr: "np_eq ptr ytr = Inr htr" and
    acc: "map_of result ''test_accuracy'' = Some (JFloat (np_mean hte))"
         "map_of result ''train_accuracy'' = Some (JFloat (np_mean htr))"
    by auto
  have "hte = []" if "arr_rows Xte = []"
    using that load_splits_aligned [OF loaded] hte by (simp add: np_eq_no_labels)
  moreover have "htr = []" if "arr_rows Xtr = []"
    using that load_splits_aligned [OF loaded] htr by (simp add: np_eq_no_labels)
  ultimately show ?thesis using acc by (auto simp: np_mean_def)
qed

lemma accepted_empty_test_split:
  \<open>fst (main (example_libs False) fs_empty_test None w0) = Inr () \<and>
   stdout (snd (main (example_libs False) fs_empty_test None w0)) =
     ''{"test_probabilities": [], "test_predictions": [], "test_accuracy": NaN, "train_accuracy": 1.0}''
       @ [CHR 0x0A]\<close>
  by code_simp

end
